theory Spec2Isabelle
  imports Complex_Main "HOL-Library.Word"
begin

unbundle bit_operations_syntax

section \<open>SIMION potential arrays: the data model of \<^verbatim>\<open>SIMION/PA.py\<close>\<close>

text \<open>
  The class \<^verbatim>\<open>PA\<close> is a record of its private attributes (\<^verbatim>\<open>self._nx\<close> is
  \<open>self_nx\<close>). Python floats are a type parameter \<open>'f\<close>: the arithmetic of the accessors
  is carried out over the reals (\<open>real pa\<close>), where every operation is exact, and the
  binary codec works on the IEEE-754 bit patterns of the doubles (\<open>64 word pa\<close>).
  Python integers are \<open>int\<close>, and the mirror flags, which the class only ever tests for
  truth, are \<open>bool\<close>.

  Error messages are kept as the list of the pieces that the source concatenates, with
  the numbers left unrendered.
\<close>

datatype 'f piece = Txt string | IntV int | FloatV 'f | NoneV

type_synonym 'f message = "'f piece list"

datatype 'f exn =
    PAError "'f message"
  | IOError "'f message"
  | AssertionError "'f message option"
  | StructError
  | ValueError
  | TypeError
  | IndexError
  | ZeroDivisionError
  | OverflowError

record 'f sharp =
  sharp_nx :: int
  sharp_ny :: int
  sharp_nz :: int
  sharp_max_voltage :: 'f
  sharp_points :: "'f list"

record 'f pa =
  self_mode :: int
  self_symmetry :: string
  self_max_voltage :: 'f
  self_nx :: int
  self_ny :: int
  self_nz :: int
  self_mirror_x :: bool
  self_mirror_y :: bool
  self_mirror_z :: bool
  self_field_type :: string
  self_ng :: int
  self_dx_mm :: 'f
  self_dy_mm :: 'f
  self_dz_mm :: 'f
  self_fast_adjustable :: bool
  self_error :: "'f message option"
  self_pasharp :: "'f sharp option"
  self_points :: "'f list"

subsection \<open>Python list indexing\<close>

text \<open>\<^verbatim>\<open>xs[i]\<close> and \<^verbatim>\<open>xs[i] = v\<close>: a negative index counts from the end, an index out of
  range raises IndexError.\<close>

definition py_index :: "'a list \<Rightarrow> int \<Rightarrow> nat option" where
  "py_index xs i =
     (let n = int (length xs); j = (if i < 0 then n + i else i)
      in if 0 \<le> j \<and> j < n then Some (nat j) else None)"

definition py_get :: "'f list \<Rightarrow> int \<Rightarrow> 'f exn + 'f" where
  "py_get xs i = (case py_index xs i of None \<Rightarrow> Inl IndexError | Some j \<Rightarrow> Inr (xs ! j))"

definition py_set :: "'f list \<Rightarrow> int \<Rightarrow> 'f \<Rightarrow> 'f exn + 'f list" where
  "py_set xs i v = (case py_index xs i of None \<Rightarrow> Inl IndexError | Some j \<Rightarrow> Inr (xs[j := v]))"

subsection \<open>The checkers\<close>

text \<open>Each \<^verbatim>\<open>check_*\<close> method returns a truth value and, on failure, overwrites the
  last-error slot \<^verbatim>\<open>self._error\<close>.\<close>

definition fail_with :: "'f message \<Rightarrow> 'f pa \<Rightarrow> bool \<times> 'f pa" where
  "fail_with m self = (False, self\<lparr>self_error := Some m\<rparr>)"

definition check_field_type :: "string \<Rightarrow> 'f pa \<Rightarrow> bool \<times> 'f pa" where
  "check_field_type field_type self =
     (if field_type \<notin> set [''electrostatic'', ''magnetic'']
      then fail_with [Txt ''Field type ('', Txt field_type,
                      Txt '') must be 'electrostatic' or 'magnetic'.''] self
      else (True, self))"

definition check_max_voltage :: "'f::linordered_field \<Rightarrow> 'f pa \<Rightarrow> bool \<times> 'f pa" where
  "check_max_voltage max_voltage self =
     (if max_voltage < 0
      then fail_with [Txt ''Max voltage ('', FloatV max_voltage, Txt '') is out of range.''] self
      else (True, self))"

definition check_mode :: "int \<Rightarrow> 'f pa \<Rightarrow> bool \<times> 'f pa" where
  "check_mode mode self =
     (if mode \<noteq> -1 \<and> mode \<noteq> -2
      then fail_with [Txt ''Mode ('', IntV mode, Txt '') is out of range.''] self
      else (True, self))"

definition check_ng :: "int \<Rightarrow> 'f pa \<Rightarrow> bool \<times> 'f pa" where
  "check_ng ng self =
     (if ng < 0
      then fail_with [Txt ''Magnetic scaling factor ('', IntV ng,
                      Txt '') must be no less than 0.''] self
      else (True, self))"

definition check_nx :: "int \<Rightarrow> 'f pa \<Rightarrow> bool \<times> 'f pa" where
  "check_nx nx self =
     (if nx < 3
      then fail_with [Txt ''nx value ('', IntV nx, Txt '') must be no less than 3.''] self
      else if nx > 90000
      then fail_with [Txt ''nx value ('', IntV nx, Txt '') must be no greater than 90000.''] self
      else (True, self))"

definition check_ny :: "int \<Rightarrow> 'f pa \<Rightarrow> bool \<times> 'f pa" where
  "check_ny ny self =
     (if ny < 3
      then fail_with [Txt ''ny value ('', IntV ny, Txt '') must be no less than 3.''] self
      else if ny > 90000
      then fail_with [Txt ''ny value ('', IntV ny, Txt '') must be no greater than 90000.''] self
      else (True, self))"

definition check_nz :: "int \<Rightarrow> 'f pa \<Rightarrow> bool \<times> 'f pa" where
  "check_nz nz self =
     (if nz < 1
      then fail_with [Txt ''nz value ('', IntV nz, Txt '') must be no less than 1.''] self
      else if nz > 90000
      then fail_with [Txt ''nz value ('', IntV nz, Txt '') must be no greater than 90000.''] self
      else (True, self))"

text \<open>\<^verbatim>\<open>check_size(nx, ny, nz)\<close>. The method \<^verbatim>\<open>check\<close> passes \<^verbatim>\<open>ny\<close> and \<^verbatim>\<open>nz\<close> on as
  they are, possibly \<^verbatim>\<open>None\<close>; comparing \<^verbatim>\<open>None\<close> with a number raises TypeError.\<close>

definition check_size :: "int \<Rightarrow> int option \<Rightarrow> int option \<Rightarrow> 'f pa \<Rightarrow> 'f exn + bool \<times> 'f pa" where
  "check_size nx ny nz self =
     (case check_nx nx self of
        (False, s) \<Rightarrow> Inr (False, s)
      | (True, s) \<Rightarrow>
          (case ny of
             None \<Rightarrow> Inl TypeError
           | Some ny' \<Rightarrow>
               (case check_ny ny' s of
                  (False, s) \<Rightarrow> Inr (False, s)
                | (True, s) \<Rightarrow>
                    (case nz of
                       None \<Rightarrow> Inl TypeError
                     | Some nz' \<Rightarrow>
                         (case check_nz nz' s of
                            (False, s) \<Rightarrow> Inr (False, s)
                          | (True, s) \<Rightarrow>
                              if nx * ny' * nz' > 200000000
                              then Inr (fail_with [Txt ''('', IntV nx, Txt '','', IntV ny',
                                          Txt '','', IntV nz',
                                          Txt '') exceeds 200 million points.''] s)
                              else Inr (True, s))))))"

definition check_symmetry :: "string \<Rightarrow> 'f pa \<Rightarrow> bool \<times> 'f pa" where
  "check_symmetry symmetry self =
     (if symmetry \<notin> set [''planar'', ''cylindrical'']
      then fail_with [Txt ''Symmetry ('', Txt symmetry,
                      Txt '') must be 'planar' or 'cylindrical'.''] self
      else (True, self))"

definition check_dx_mm :: "'f::linordered_field \<Rightarrow> 'f pa \<Rightarrow> bool \<times> 'f pa" where
  "check_dx_mm xmmgu self =
     (if xmmgu < 1 / 1000000
      then fail_with [Txt ''dx_mm value ('', FloatV xmmgu, Txt '') must be no less than 1e-6.''] self
      else if xmmgu > 900
      then fail_with [Txt ''dx_mm value ('', FloatV xmmgu, Txt '') must be no greater than 900.''] self
      else (True, self))"

definition check_dy_mm :: "'f::linordered_field \<Rightarrow> 'f pa \<Rightarrow> bool \<times> 'f pa" where
  "check_dy_mm ymmgu self =
     (if ymmgu < 1 / 1000000
      then fail_with [Txt ''dy_mm value ('', FloatV ymmgu, Txt '') must be no less than 1e-6.''] self
      else if ymmgu > 900
      then fail_with [Txt ''dy_mm value ('', FloatV ymmgu, Txt '') must be no greater than 900.''] self
      else (True, self))"

definition check_dz_mm :: "'f::linordered_field \<Rightarrow> 'f pa \<Rightarrow> bool \<times> 'f pa" where
  "check_dz_mm zmmgu self =
     (if zmmgu < 1 / 1000000
      then fail_with [Txt ''dz_mm value ('', FloatV zmmgu, Txt '') must be no less than 1e-6.''] self
      else if zmmgu > 900
      then fail_with [Txt ''dz_mm value ('', FloatV zmmgu, Txt '') must be no greater than 900.''] self
      else (True, self))"

text \<open>\<^verbatim>\<open>_parse_mirror\<close>: the regular expression \<^verbatim>\<open>^(x?)(y?)(z?)$\<close>, where \<^verbatim>\<open>$\<close> also
  matches before one final newline.\<close>

definition opt_char :: "char \<Rightarrow> string \<Rightarrow> bool \<times> string" where
  "opt_char c s = (case s of [] \<Rightarrow> (False, s) | d # r \<Rightarrow> if d = c then (True, r) else (False, s))"

definition at_end :: "string \<Rightarrow> bool" where
  "at_end s = (s = [] \<or> s = [CHR 0x0A])"

definition parse_mirror :: "string \<Rightarrow> 'f exn + bool \<times> bool \<times> bool" where
  "parse_mirror mirror =
     (let (mx, s1) = opt_char CHR ''x'' mirror;
          (my, s2) = opt_char CHR ''y'' s1;
          (mz, s3) = opt_char CHR ''z'' s2
      in if at_end s3 then Inr (mx, my, mz)
         else Inl (AssertionError (Some [Txt ''Invalid mirroring ('', Txt mirror, Txt '').''])))"

text \<open>The keyword arguments of \<^verbatim>\<open>check\<close>, each \<^verbatim>\<open>None\<close> unless given.\<close>

record 'f check_args =
  arg_mode :: "int option"
  arg_field_type :: "string option"
  arg_symmetry :: "string option"
  arg_mirror :: "string option"
  arg_mirror_x :: "bool option"
  arg_mirror_y :: "bool option"
  arg_mirror_z :: "bool option"
  arg_nx :: "int option"
  arg_ny :: "int option"
  arg_nz :: "int option"
  arg_fast_adjustable :: "bool option"
  arg_max_voltage :: "'f option"
  arg_ng :: "int option"
  arg_dx_mm :: "'f option"
  arg_dy_mm :: "'f option"
  arg_dz_mm :: "'f option"

definition no_args :: "'f check_args" where
  "no_args = \<lparr>arg_mode = None, arg_field_type = None, arg_symmetry = None, arg_mirror = None,
     arg_mirror_x = None, arg_mirror_y = None, arg_mirror_z = None,
     arg_nx = None, arg_ny = None, arg_nz = None, arg_fast_adjustable = None,
     arg_max_voltage = None, arg_ng = None,
     arg_dx_mm = None, arg_dy_mm = None, arg_dz_mm = None\<rparr>"

text \<open>One guard \<^verbatim>\<open>if v != None and not self.check_v(v): return 0\<close> of \<^verbatim>\<open>check\<close>.\<close>

definition guard :: "'a option \<Rightarrow> ('a \<Rightarrow> 'f pa \<Rightarrow> bool \<times> 'f pa) \<Rightarrow> 'f pa \<Rightarrow> 'f exn + bool \<times> 'f pa" where
  "guard v chk self = (case v of None \<Rightarrow> Inr (True, self) | Some x \<Rightarrow> Inr (chk x self))"

text \<open>The guards run in the order of the source and stop at the first that fails.\<close>

fun guards :: "('f pa \<Rightarrow> 'f exn + bool \<times> 'f pa) list \<Rightarrow> 'f pa \<Rightarrow> 'f exn + bool \<times> 'f pa" where
  "guards [] self = Inr (True, self)"
| "guards (g # gs) self =
     (case g self of
        Inl e \<Rightarrow> Inl e
      | Inr (False, s) \<Rightarrow> Inr (False, s)
      | Inr (True, s) \<Rightarrow> guards gs s)"

text \<open>The part of \<^verbatim>\<open>check\<close> after the alias \<^verbatim>\<open>mirror\<close> has been resolved: the three
  constraints that tie symmetry, mirroring and \<^verbatim>\<open>nz\<close> together.\<close>

definition check_symmetry_rules ::
  "string option \<Rightarrow> bool option \<Rightarrow> bool option \<Rightarrow> int option \<Rightarrow> 'f pa \<Rightarrow> bool \<times> 'f pa" where
  "check_symmetry_rules symmetry mirror_y mirror_z nz self =
     (if symmetry = Some ''cylindrical'' \<and> mirror_y = Some False
      then fail_with [Txt ''y mirroring must be enabled under cylindrical symmetry.''] self
      else if symmetry = Some ''cylindrical'' \<and> nz \<noteq> Some 1 \<and> nz \<noteq> None
      then fail_with [Txt ''nz ('', (case nz of None \<Rightarrow> NoneV | Some n \<Rightarrow> IntV n),
                      Txt '') must be 1 under cylindrical symmetry.''] self
      else if mirror_z = Some True \<and> nz = Some 1
      then fail_with [Txt ''nz ('', (case nz of None \<Rightarrow> NoneV | Some n \<Rightarrow> IntV n),
                      Txt '') cannot be 1 under z mirroring.''] self
      else (True, self))"

text \<open>The tail of \<^verbatim>\<open>check\<close>: the alias \<^verbatim>\<open>mirror\<close> is resolved into the three flags,
  then the symmetry constraints are tested.\<close>

definition check_tail :: "'f check_args \<Rightarrow> 'f pa \<Rightarrow> 'f exn + bool \<times> 'f pa" where
  "check_tail a s =
     (case arg_mirror a of
        None \<Rightarrow>
          Inr (check_symmetry_rules (arg_symmetry a) (arg_mirror_y a) (arg_mirror_z a)
                 (arg_nz a) s)
      | Some mirror \<Rightarrow>
          if arg_mirror_x a \<noteq> None
          then Inr (fail_with [Txt ''mirror and mirror_x named parameters cannot coexist.''] s)
          else if arg_mirror_y a \<noteq> None
          then Inr (fail_with [Txt ''mirror and mirror_y named parameters cannot coexist.''] s)
          else if arg_mirror_z a \<noteq> None
          then Inr (fail_with [Txt ''mirror and mirror_z named parameters cannot coexist.''] s)
          else
            (case parse_mirror mirror of
               Inl e \<Rightarrow> Inl e
             | Inr (mx, my, mz) \<Rightarrow>
                 Inr (check_symmetry_rules (arg_symmetry a) (Some my) (Some mz)
                        (arg_nz a) s)))"

definition check_guards :: "'f::linordered_field check_args \<Rightarrow> ('f pa \<Rightarrow> 'f exn + bool \<times> 'f pa) list" where
  "check_guards a =
     [guard (arg_mode a) check_mode,
      guard (arg_symmetry a) check_symmetry,
      guard (arg_max_voltage a) check_max_voltage,
      guard (arg_field_type a) check_field_type,
      guard (arg_ng a) check_ng,
      guard (arg_nx a) check_nx,
      guard (arg_ny a) check_ny,
      guard (arg_nz a) check_nz,
      (\<lambda>s. case arg_nx a of None \<Rightarrow> Inr (True, s)
            | Some nx \<Rightarrow> check_size nx (arg_ny a) (arg_nz a) s),
      guard (arg_dx_mm a) check_dx_mm,
      guard (arg_dy_mm a) check_dy_mm,
      guard (arg_dz_mm a) check_dz_mm]"

definition check :: "'f::linordered_field check_args \<Rightarrow> 'f pa \<Rightarrow> 'f exn + bool \<times> 'f pa" where
  "check a self =
     (case guards (check_guards a) self of
        Inl e \<Rightarrow> Inl e
      | Inr (False, s) \<Rightarrow> Inr (False, s)
      | Inr (True, s) \<Rightarrow> check_tail a s)"

subsection \<open>Boundary tests\<close>

definition inside :: "'f pa \<Rightarrow> int \<Rightarrow> int \<Rightarrow> int \<Rightarrow> bool" where
  "inside self x y z =
     (x \<ge> 0 \<and> x < self_nx self \<and> y \<ge> 0 \<and> y < self_ny self \<and> z \<ge> 0 \<and> z < self_nz self)"

definition fail_point :: "'f pa \<Rightarrow> 'f piece \<Rightarrow> 'f piece \<Rightarrow> 'f piece \<Rightarrow> 'f exn" where
  "fail_point self x y z =
     AssertionError (Some [Txt ''point ('', x, Txt '','', y, Txt '','', z,
       Txt '') out of bounds ('', IntV (self_nx self), Txt '','', IntV (self_ny self),
       Txt '','', IntV (self_nz self), Txt '').''])"




definition voxel_inside :: "'f pa \<Rightarrow> int \<Rightarrow> int \<Rightarrow> int \<Rightarrow> bool" where
  "voxel_inside self x y z =
     (let yes = (x \<ge> 0 \<and> x + 1 < self_nx self \<and> y \<ge> 0 \<and> y + 1 < self_ny self)
      in if yes then (if self_nz self = 1 then z = 0 else z \<ge> 0 \<and> z + 1 < self_nz self)
         else yes)"

subsection \<open>Resizing\<close>


subsection \<open>Point accessors\<close>

text \<open>Each accessor of the source is a getter when its last argument is \<^verbatim>\<open>None\<close> and a
  setter otherwise; the two are separate functions here.\<close>

definition pos :: "'f pa \<Rightarrow> int \<Rightarrow> int \<Rightarrow> int \<Rightarrow> int" where
  "pos self x y z = (z * self_ny self + y) * self_nx self + x"

definition itriple_fail :: "'f pa \<Rightarrow> int \<Rightarrow> int \<Rightarrow> int \<Rightarrow> 'f exn" where
  "itriple_fail self x y z = fail_point self (IntV x) (IntV y) (IntV z)"

definition raw_get :: "'f pa \<Rightarrow> int \<Rightarrow> int \<Rightarrow> int \<Rightarrow> 'f exn + 'f" where
  "raw_get self x y z =
     (if \<not> inside self x y z then Inl (itriple_fail self x y z)
      else py_get (self_points self) (pos self x y z))"


definition electrode_get :: "real pa \<Rightarrow> int \<Rightarrow> int \<Rightarrow> int \<Rightarrow> real exn + bool" where
  "electrode_get self x y z =
     (if \<not> inside self x y z then Inl (itriple_fail self x y z)
      else case py_get (self_points self) (pos self x y z) of
             Inl e \<Rightarrow> Inl e
           | Inr v \<Rightarrow> Inr (v > self_max_voltage self))"


text \<open>The loop of the \<^verbatim>\<open>max_voltage\<close> setter over \<^verbatim>\<open>range(num_points)\<close>: \<open>n\<close> is the
  index and \<open>k\<close> the number of iterations left.\<close>

fun rescale_points :: "real \<Rightarrow> real \<Rightarrow> nat \<Rightarrow> nat \<Rightarrow> real list \<Rightarrow> real exn + real list" where
  "rescale_points old diff n 0 pts = Inr pts"
| "rescale_points old diff n (Suc k) pts =
     (if n < length pts
      then rescale_points old diff (Suc n) k
             (if pts ! n > old then pts[n := pts ! n + diff] else pts)
      else Inl IndexError)"

definition max_voltage_set :: "real pa \<Rightarrow> real \<Rightarrow> real exn + real pa" where
  "max_voltage_set self max_voltage =
     (case check_max_voltage max_voltage self of
        (False, s) \<Rightarrow> Inl (AssertionError (self_error s))
      | (True, s) \<Rightarrow>
          (let num_points = self_nx s * self_ny s * self_nz s;
               old_max_voltage = self_max_voltage s;
               diff = - 2 * self_max_voltage s + 2 * max_voltage
           in case rescale_points old_max_voltage diff 0 (nat num_points) (self_points s) of
                Inl e \<Rightarrow> Inl e
              | Inr pts \<Rightarrow> Inr (s\<lparr>self_max_voltage := max_voltage, self_points := pts\<rparr>)))"


text \<open>The common tail of the setters \<^verbatim>\<open>point\<close> and \<^verbatim>\<open>potential\<close>: raise
  \<^verbatim>\<open>max_voltage\<close> if the potential exceeds it, store the potential, add the electrode
  offset.\<close>

definition store_potential :: "real pa \<Rightarrow> int \<Rightarrow> bool \<Rightarrow> real \<Rightarrow> real exn + real pa" where
  "store_potential self p is_electrode potential =
     (case (if potential > self_max_voltage self
            then max_voltage_set self (potential * 2)
            else Inr self) of
        Inl e \<Rightarrow> Inl e
      | Inr s \<Rightarrow>
          (case py_set (self_points s) p
                  (if is_electrode then potential + 2 * self_max_voltage s else potential) of
             Inl e \<Rightarrow> Inl e
           | Inr pts \<Rightarrow> Inr (s\<lparr>self_points := pts\<rparr>)))"

definition point_set ::
  "real pa \<Rightarrow> int \<Rightarrow> int \<Rightarrow> int \<Rightarrow> bool \<Rightarrow> real option \<Rightarrow> real exn + real pa" where
  "point_set self x y z is_electrode potential =
     (if \<not> inside self x y z then Inl (itriple_fail self x y z)
      else store_potential self (pos self x y z) is_electrode
             (case potential of None \<Rightarrow> 0 | Some p \<Rightarrow> p))"

definition potential_get :: "real pa \<Rightarrow> int \<Rightarrow> int \<Rightarrow> int \<Rightarrow> real exn + real" where
  "potential_get self x y z =
     (if \<not> inside self x y z then Inl (itriple_fail self x y z)
      else case py_get (self_points self) (pos self x y z) of
             Inl e \<Rightarrow> Inl e
           | Inr val \<Rightarrow>
               Inr (if val > self_max_voltage self then val - 2 * self_max_voltage self
                    else val))"

definition potential_set :: "real pa \<Rightarrow> int \<Rightarrow> int \<Rightarrow> int \<Rightarrow> real \<Rightarrow> real exn + real pa" where
  "potential_set self x y z potential =
     (if \<not> inside self x y z then Inl (itriple_fail self x y z)
      else case py_get (self_points self) (pos self x y z) of
             Inl e \<Rightarrow> Inl e
           | Inr v \<Rightarrow>
               store_potential self (pos self x y z) (v > self_max_voltage self) potential)"

subsection \<open>Interpolation\<close>

text \<open>\<^verbatim>\<open>int(r)\<close> on a float truncates towards zero.\<close>

definition py_int :: "real \<Rightarrow> int" where
  "py_int r = (if r \<ge> 0 then \<lfloor>r\<rfloor> else \<lceil>r\<rceil>)"







subsection \<open>Field reconstruction\<close>

text \<open>Sequencing of two computations that may raise.\<close>

definition and_then :: "'e + 'a \<Rightarrow> ('a \<Rightarrow> 'e + 'b) \<Rightarrow> 'e + 'b" where
  "and_then m f = (case m of Inl e \<Rightarrow> Inl e | Inr v \<Rightarrow> f v)"

text \<open>\<^verbatim>\<open>self.point(x, y, z, 0, self.raw(x, y, z) - f)\<close>: the running correction that
  \<^verbatim>\<open>_set_field\<close> applies to a forward neighbour.\<close>

definition push_forward :: "real pa \<Rightarrow> int \<Rightarrow> int \<Rightarrow> int \<Rightarrow> real \<Rightarrow> real exn + real pa" where
  "push_forward self x y z f =
     and_then (raw_get self x y z) (\<lambda>r. point_set self x y z False (Some (r - f)))"

text \<open>The chain of eight cases of \<^verbatim>\<open>_set_field\<close> that computes the value of the current
  point from its backward neighbours and stores it, never as an electrode.\<close>

definition finalize_point ::
  "real pa \<Rightarrow> int \<Rightarrow> int \<Rightarrow> int \<Rightarrow> real \<Rightarrow> real \<Rightarrow> real \<Rightarrow> real exn + real pa" where
  "finalize_point self x y z field_x field_y field_z =
     (if x \<noteq> 0 \<and> y \<noteq> 0 \<and> z \<noteq> 0 then
        and_then (potential_get self (x - 1) y z) (\<lambda>a.
        and_then (potential_get self x (y - 1) z) (\<lambda>b.
        and_then (potential_get self x y (z - 1)) (\<lambda>c.
        and_then (raw_get self x y z) (\<lambda>r.
          point_set self x y z False
            (Some ((a + b + c) / 3 + (r - field_x - field_y - field_z) / 6))))))
      else if x \<noteq> 0 \<and> y \<noteq> 0 then
        and_then (potential_get self (x - 1) y z) (\<lambda>a.
        and_then (potential_get self x (y - 1) z) (\<lambda>b.
        and_then (raw_get self x y z) (\<lambda>r.
          point_set self x y z False (Some ((a + b) / 2 + (r - field_x - field_y) / 4)))))
      else if x \<noteq> 0 \<and> z \<noteq> 0 then
        and_then (potential_get self (x - 1) y z) (\<lambda>a.
        and_then (potential_get self x y (z - 1)) (\<lambda>c.
        and_then (raw_get self x y z) (\<lambda>r.
          point_set self x y z False (Some ((a + c) / 2 + (r - field_x - field_z) / 4)))))
      else if y \<noteq> 0 \<and> z \<noteq> 0 then
        and_then (potential_get self x (y - 1) z) (\<lambda>b.
        and_then (potential_get self x y (z - 1)) (\<lambda>c.
        and_then (raw_get self x y z) (\<lambda>r.
          point_set self x y z False (Some ((b + c) / 2 + (r - field_y - field_z) / 4)))))
      else if z \<noteq> 0 then
        and_then (potential_get self x y (z - 1)) (\<lambda>c.
        and_then (raw_get self x y z) (\<lambda>r.
          point_set self x y z False (Some (c + (r - field_z) / 2))))
      else if y \<noteq> 0 then
        and_then (potential_get self x (y - 1) z) (\<lambda>b.
        and_then (raw_get self x y z) (\<lambda>r.
          point_set self x y z False (Some (b + (r - field_y) / 2))))
      else if x \<noteq> 0 then
        and_then (potential_get self (x - 1) y z) (\<lambda>a.
        and_then (raw_get self x y z) (\<lambda>r.
          point_set self x y z False (Some (a + (r - field_x) / 2))))
      else point_set self x y z False (Some 0))"

text \<open>\<^verbatim>\<open>_set_field\<close>. For a magnetic array the vector is first divided by \<^verbatim>\<open>ng\<close>, which
  raises ZeroDivisionError when \<^verbatim>\<open>ng\<close> is 0.\<close>

definition set_field ::
  "real pa \<Rightarrow> int \<Rightarrow> int \<Rightarrow> int \<Rightarrow> real \<Rightarrow> real \<Rightarrow> real \<Rightarrow> real exn + real pa" where
  "set_field self x y z field_x field_y field_z =
     and_then
       (if self_field_type self = ''magnetic'' then
          (if self_ng self = 0 then Inl ZeroDivisionError
           else Inr (field_x / real_of_int (self_ng self),
                     field_y / real_of_int (self_ng self),
                     field_z / real_of_int (self_ng self)))
        else Inr (field_x, field_y, field_z))
       (\<lambda>(field_x, field_y, field_z).
     and_then
       (if x \<noteq> self_nx self - 1 then push_forward self (x + 1) y z field_x else Inr self)
       (\<lambda>s1.
     and_then
       (if y \<noteq> self_ny s1 - 1 then push_forward s1 x (y + 1) z field_y else Inr s1)
       (\<lambda>s2.
     and_then
       (if z \<noteq> self_nz s2 - 1 then push_forward s2 x y (z + 1) field_z else Inr s2)
       (\<lambda>s3. finalize_point s3 x y z field_x field_y field_z))))"

text \<open>The scan that the documentation of \<^verbatim>\<open>field\<close> prescribes: the setter is called once
  for every point, z outermost, then y, then x, each ascending from 0, here with one
  constant vector.\<close>

definition scan_order :: "int \<Rightarrow> int \<Rightarrow> int \<Rightarrow> (int \<times> int \<times> int) list" where
  "scan_order nx ny nz =
     concat (map (\<lambda>z. concat (map (\<lambda>y. map (\<lambda>x. (x, y, z)) [0..nx - 1]) [0..ny - 1]))
       [0..nz - 1])"

fun set_field_all ::
  "real pa \<Rightarrow> (int \<times> int \<times> int) list \<Rightarrow> real \<Rightarrow> real \<Rightarrow> real \<Rightarrow> real exn + real pa" where
  "set_field_all self [] ex ey ez = Inr self"
| "set_field_all self ((x, y, z) # cs) ex ey ez =
     (case set_field self x y z ex ey ez of
        Inl e \<Rightarrow> Inl e
      | Inr s \<Rightarrow> set_field_all s cs ex ey ez)"

definition drive_field :: "real pa \<Rightarrow> real \<Rightarrow> real \<Rightarrow> real \<Rightarrow> real exn + real pa" where
  "drive_field self ex ey ez =
     set_field_all self (scan_order (self_nx self) (self_ny self) (self_nz self)) ex ey ez"

subsection \<open>The binary layout\<close>

text \<open>A file is its list of bytes. A double is the 64-bit word of its IEEE-754 bit
  pattern, so that packing and unpacking it move bits only; \<^verbatim>\<open>struct\<close> works in the
  native byte order, taken to be little-endian.\<close>

type_synonym byte = "8 word"
type_synonym f64 = "64 word"

definition le_bytes :: "nat \<Rightarrow> 'a::len word \<Rightarrow> byte list" where
  "le_bytes n w = map (\<lambda>i. ucast (drop_bit (8 * i) w)) [0..<n]"

fun le_word :: "byte list \<Rightarrow> 'a::len word" where
  "le_word [] = 0"
| "le_word (b # bs) = ucast b OR push_bit 8 (le_word bs)"

text \<open>\<^verbatim>\<open>struct.pack("i", n)\<close> raises \<^verbatim>\<open>struct.error\<close> unless \<open>n\<close> fits 32 bits.\<close>

definition pack_i :: "int \<Rightarrow> f64 exn + byte list" where
  "pack_i n =
     (if - (2 ^ 31) \<le> n \<and> n < 2 ^ 31 then Inr (le_bytes 4 (word_of_int n :: 32 word))
      else Inl StructError)"

definition unpack_i :: "byte list \<Rightarrow> int" where
  "unpack_i bs = sint (le_word bs :: 32 word)"

definition pack_d :: "f64 \<Rightarrow> byte list" where
  "pack_d v = le_bytes 8 v"

definition unpack_d :: "byte list \<Rightarrow> f64" where
  "unpack_d bs = le_word bs"

text \<open>The bit patterns of the doubles 1.0, 10000.0 and 100000.0.\<close>

definition f64_one :: f64 where
  "f64_one = 0x3FF0000000000000"

definition f64_10000 :: f64 where
  "f64_10000 = 0x40C3880000000000"

definition f64_100000 :: f64 where
  "f64_100000 = 0x40F86A0000000000"

text \<open>The getter \<^verbatim>\<open>mode()\<close>: the reported mode is -2 when the stored mode is -1 but a
  spacing differs from 1.\<close>

definition mode_get :: "f64 pa \<Rightarrow> int" where
  "mode_get self =
     (if self_mode self = -1 \<and>
         (self_dx_mm self \<noteq> f64_one \<or> self_dy_mm self \<noteq> f64_one \<or> self_dz_mm self \<noteq> f64_one)
      then -2 else self_mode self)"

subsection \<open>Python ranges and slices\<close>

text \<open>\<^verbatim>\<open>range(start, stop, step)\<close> for a step other than 0.\<close>

definition py_range_len :: "int \<Rightarrow> int \<Rightarrow> int \<Rightarrow> nat" where
  "py_range_len start stop step =
     (if step > 0 then (if start < stop then nat ((stop - start - 1) div step + 1) else 0)
      else if step < 0 then (if stop < start then nat ((start - stop - 1) div (- step) + 1) else 0)
      else 0)"

definition py_range :: "int \<Rightarrow> int \<Rightarrow> int \<Rightarrow> int list" where
  "py_range start stop step =
     map (\<lambda>i. start + int i * step) [0..<py_range_len start stop step]"

text \<open>The bounds of a slice \<^verbatim>\<open>xs[i:j]\<close> are clamped to the list; a negative bound counts
  from the end.\<close>

definition slice_bound :: "int \<Rightarrow> int \<Rightarrow> nat" where
  "slice_bound len i = nat (if i < 0 then max 0 (i + len) else min i len)"

definition slice_get :: "'a list \<Rightarrow> int \<Rightarrow> int \<Rightarrow> 'a list" where
  "slice_get xs i j =
     (let s = slice_bound (int (length xs)) i; e = max s (slice_bound (int (length xs)) j)
      in take (e - s) (drop s xs))"

definition slice_assign :: "'a list \<Rightarrow> int \<Rightarrow> int \<Rightarrow> 'a list \<Rightarrow> 'a list" where
  "slice_assign xs i j row =
     (let s = slice_bound (int (length xs)) i; e = max s (slice_bound (int (length xs)) j)
      in take s xs @ row @ drop e xs)"

subsection \<open>Loading\<close>

text \<open>\<^verbatim>\<open>file.read(n)\<close> on the rest of the file: up to \<open>n\<close> bytes, all of them when \<open>n\<close> is
  negative.\<close>

definition file_read :: "int \<Rightarrow> byte list \<Rightarrow> byte list \<times> byte list" where
  "file_read n rest = (if n < 0 then (rest, []) else (take (nat n) rest, drop (nat n) rest))"

definition read_bytes :: "byte list \<Rightarrow> int \<Rightarrow> f64 exn + byte list \<times> byte list" where
  "read_bytes file nbytes =
     (let (s, rest) = file_read nbytes file
      in if int (length s) \<noteq> nbytes then Inl (IOError [Txt ''Bytes missing from file.''])
         else Inr (s, rest))"

text \<open>\<^verbatim>\<open>struct.unpack("d" * nx, buf)\<close>: the buffer must hold exactly 8 bytes for each of
  the \<open>nx\<close> doubles (none when \<open>nx\<close> is negative).\<close>

fun doubles :: "nat \<Rightarrow> byte list \<Rightarrow> f64 list" where
  "doubles 0 bs = []"
| "doubles (Suc k) bs = unpack_d (take 8 bs) # doubles k (drop 8 bs)"

definition unpack_doubles :: "int \<Rightarrow> byte list \<Rightarrow> f64 exn + f64 list" where
  "unpack_doubles nx buf =
     (if length buf \<noteq> 8 * nat nx then Inl StructError else Inr (doubles (nat nx) buf))"

text \<open>The loop of \<^verbatim>\<open>load\<close> over the rows: \<open>ns\<close> are the values that \<^verbatim>\<open>n\<close> takes. The row
  is read with \<^verbatim>\<open>f.read\<close>, not with \<^verbatim>\<open>_read_bytes\<close>.\<close>

fun read_rows :: "int \<Rightarrow> int list \<Rightarrow> byte list \<Rightarrow> f64 list \<Rightarrow> f64 exn + f64 list" where
  "read_rows nx [] rest pts = Inr pts"
| "read_rows nx (n # ns) rest pts =
     (let (buf, rest') = file_read (nx * 8) rest
      in case unpack_doubles nx buf of
           Inl e \<Rightarrow> Inl e
         | Inr row \<Rightarrow> read_rows nx ns rest' (slice_assign pts n (n + nx) row))"

text \<open>\<^verbatim>\<open>re.search('#$', path)\<close>: the path ends in \<^verbatim>\<open>#\<close>, or in \<^verbatim>\<open>#\<close> and one final
  newline.\<close>

definition hash_suffix :: "string \<Rightarrow> bool" where
  "hash_suffix path =
     (case rev path of
        [] \<Rightarrow> False
      | c # r \<Rightarrow> c = CHR ''#'' \<or> (c = CHR 0x0A \<and> (case r of [] \<Rightarrow> False | d # _ \<Rightarrow> d = CHR ''#'')))"

text \<open>The two handlers of \<^verbatim>\<open>load\<close>: a \<^verbatim>\<open>PAError\<close> or an \<^verbatim>\<open>IOError\<close> is raised again as
  a \<^verbatim>\<open>PAError\<close> that names the file; \<^verbatim>\<open>str\<close> of a \<^verbatim>\<open>PAError\<close> is the \<^verbatim>\<open>repr\<close> of its
  value, in quotes. Every other exception passes through.\<close>

definition failed_reading :: "string \<Rightarrow> f64 message \<Rightarrow> f64 exn" where
  "failed_reading path m =
     PAError ([Txt (''Failed reading file '' @ [CHR 0x22]), Txt path, Txt (CHR 0x22 # '': '')] @ m)"

definition wrap_reading :: "string \<Rightarrow> f64 exn + 'a \<Rightarrow> f64 exn + 'a" where
  "wrap_reading path r =
     (case r of
        Inl (PAError m) \<Rightarrow> Inl (failed_reading path ([Txt [CHR 0x27]] @ m @ [Txt [CHR 0x27]]))
      | Inl (IOError m) \<Rightarrow> Inl (failed_reading path m)
      | _ \<Rightarrow> r)"

text \<open>The assignments by which \<^verbatim>\<open>load\<close> installs the header it has read, with the bits
  of \<^verbatim>\<open>raw_mirror\<close> taken apart; nothing is checked.\<close>

definition install_header ::
  "string \<Rightarrow> int \<Rightarrow> int \<Rightarrow> f64 \<Rightarrow> int \<Rightarrow> int \<Rightarrow> int \<Rightarrow> int \<Rightarrow> f64 \<Rightarrow> f64 \<Rightarrow> f64 \<Rightarrow> f64 pa \<Rightarrow> f64 pa" where
  "install_header path mode symmetry max_voltage nx ny nz raw_mirror dx_mm dy_mm dz_mm self =
     self\<lparr>self_mode := mode,
          self_symmetry := (if symmetry \<noteq> 0 then ''planar'' else ''cylindrical''),
          self_max_voltage := max_voltage,
          self_nx := nx, self_ny := ny, self_nz := nz,
          self_mirror_x := (raw_mirror AND 1 \<noteq> 0),
          self_mirror_y := (drop_bit 1 raw_mirror AND 1 \<noteq> 0),
          self_mirror_z := (drop_bit 2 raw_mirror AND 1 \<noteq> 0),
          self_field_type :=
            (if drop_bit 3 raw_mirror AND 1 \<noteq> 0 then ''magnetic'' else ''electrostatic''),
          self_ng := drop_bit 4 raw_mirror AND (push_bit 17 1 - 1),
          self_dx_mm := dx_mm, self_dy_mm := dy_mm, self_dz_mm := dz_mm,
          self_fast_adjustable := hash_suffix path\<rparr>"

text \<open>The loop that allocates and fills the points; \<^verbatim>\<open>range\<close> raises ValueError for the
  step \<open>nx = 0\<close>.\<close>

definition load_points :: "int \<Rightarrow> int \<Rightarrow> int \<Rightarrow> byte list \<Rightarrow> f64 exn + f64 list" where
  "load_points nx ny nz rest =
     (let num_points = nx * ny * nz in
      if nx = 0 then Inl ValueError
      else read_rows nx (py_range 0 num_points nx) rest (replicate (nat num_points) 0))"

text \<open>The body of the \<^verbatim>\<open>try\<close> block of \<^verbatim>\<open>load\<close> once the file is open, on the content
  of the file.\<close>

definition load_body :: "string \<Rightarrow> byte list \<Rightarrow> f64 pa \<Rightarrow> f64 exn + f64 pa" where
  "load_body path file self =
     and_then (read_bytes file 4) (\<lambda>(s, rest).
       let mode = unpack_i s in
       if mode \<noteq> -1 \<and> mode \<noteq> -2
       then Inl (PAError [Txt ''invalid mode ('', IntV mode, Txt '')''])
       else
     and_then (read_bytes rest (4 + 8 + 4 * 4)) (\<lambda>(s, rest).
       let symmetry = unpack_i (take 4 s);
           max_voltage = unpack_d (take 8 (drop 4 s));
           nx = unpack_i (take 4 (drop 12 s));
           ny = unpack_i (take 4 (drop 16 s));
           nz = unpack_i (take 4 (drop 20 s));
           raw_mirror = unpack_i (take 4 (drop 24 s)) in
     and_then
       (if mode \<le> -2
        then and_then (read_bytes rest (8 * 3)) (\<lambda>(s, rest).
               Inr (unpack_d (take 8 s), unpack_d (take 8 (drop 8 s)),
                    unpack_d (take 8 (drop 16 s)), rest))
        else Inr (f64_one, f64_one, f64_one, rest))
       (\<lambda>(dx_mm, dy_mm, dz_mm, rest).
     and_then (load_points nx ny nz rest)
       (\<lambda>pts. Inr ((install_header path mode symmetry max_voltage nx ny nz raw_mirror
                       dx_mm dy_mm dz_mm self)\<lparr>self_points := pts\<rparr>)))))"

text \<open>\<^verbatim>\<open>load\<close>. The file system gives for a path either the content of the file or the
  message of the \<^verbatim>\<open>IOError\<close> with which \<^verbatim>\<open>open\<close> fails.\<close>

definition load :: "(string \<Rightarrow> f64 message + byte list) \<Rightarrow> string \<Rightarrow> f64 pa \<Rightarrow> f64 exn + f64 pa" where
  "load fs path self =
     wrap_reading path
       (case fs path of
          Inl m \<Rightarrow> Inl (IOError m)
        | Inr file \<Rightarrow> load_body path file self)"

subsection \<open>Saving\<close>

text \<open>\<^verbatim>\<open>struct.pack("d" * nx, *row)\<close>: the row must hold exactly \<open>nx\<close> doubles (none when
  \<open>nx\<close> is negative).\<close>

definition pack_doubles :: "int \<Rightarrow> f64 list \<Rightarrow> f64 exn + byte list" where
  "pack_doubles nx row =
     (if length row \<noteq> nat nx then Inl StructError else Inr (concat (map pack_d row)))"

text \<open>The loop of \<^verbatim>\<open>save\<close> over the rows, \<open>ns\<close> being the values that \<^verbatim>\<open>n\<close> takes.\<close>

fun write_rows :: "int \<Rightarrow> int list \<Rightarrow> f64 list \<Rightarrow> f64 exn + byte list" where
  "write_rows nx [] pts = Inr []"
| "write_rows nx (n # ns) pts =
     and_then (pack_doubles nx (slice_get pts n (n + nx))) (\<lambda>buf.
     and_then (write_rows nx ns pts) (\<lambda>rest. Inr (buf @ rest)))"

text \<open>Several integers packed one after the other.\<close>

fun pack_ints :: "int list \<Rightarrow> f64 exn + byte list" where
  "pack_ints [] = Inr []"
| "pack_ints (n # ns) =
     and_then (pack_i n) (\<lambda>b. and_then (pack_ints ns) (\<lambda>rest. Inr (b @ rest)))"

text \<open>The header as \<^verbatim>\<open>save\<close> packs it. The mode written is the reported one; \<^verbatim>\<open>ng\<close>
  enters \<^verbatim>\<open>raw_mirror\<close> only if it lies in 1..90000.\<close>

definition raw_mirror_of :: "'f pa \<Rightarrow> int" where
  "raw_mirror_of self =
     (let raw_mirror = 0;
          raw_mirror = (if self_mirror_x self then raw_mirror OR 1 else raw_mirror);
          raw_mirror = (if self_mirror_y self then raw_mirror OR 2 else raw_mirror);
          raw_mirror = (if self_mirror_z self then raw_mirror OR 4 else raw_mirror);
          raw_mirror = (if self_field_type self = ''magnetic'' then raw_mirror OR 8
                        else raw_mirror)
      in if self_ng self \<ge> 1 \<and> self_ng self \<le> 90000
         then raw_mirror OR push_bit 4 (self_ng self) else raw_mirror)"

definition save_header :: "f64 pa \<Rightarrow> f64 exn + byte list" where
  "save_header self =
     (let symmetry = (if self_symmetry self = ''planar'' then 1 else 0);
          raw_mirror = raw_mirror_of self
      in and_then (pack_ints [mode_get self, symmetry]) (\<lambda>b1.
         and_then (pack_ints [self_nx self, self_ny self, self_nz self, raw_mirror]) (\<lambda>b2.
           Inr (b1 @ pack_d (self_max_voltage self) @ b2 @
                (if mode_get self \<le> -2
                 then pack_d (self_dx_mm self) @ pack_d (self_dy_mm self) @
                      pack_d (self_dz_mm self)
                 else [])))))"

text \<open>The statistics that \<^verbatim>\<open>save\<close> appends when a raw array is attached compare and
  subtract doubles. A double is read as the value it denotes, and the arithmetic on
  finite values is exact.\<close>

datatype fvalue = Finite real | PosInf | NegInf | NaN

definition f64_value :: "f64 \<Rightarrow> fvalue" where
  "f64_value w =
     (let negative = bit w 63;
          e = unat (take_bit 11 (drop_bit 52 w));
          m = unat (take_bit 52 w)
      in if e = 2047 then (if m \<noteq> 0 then NaN else if negative then NegInf else PosInf)
         else Finite ((if negative then -1 else 1) *
                      (if e = 0 then real m / 2 ^ 1074
                       else real (2 ^ 52 + m) * 2 ^ e / 2 ^ 1075)))"

fun f_double :: "fvalue \<Rightarrow> fvalue" where
  "f_double (Finite r) = Finite (2 * r)"
| "f_double v = v"

fun f_ge :: "fvalue \<Rightarrow> fvalue \<Rightarrow> bool" where
  "f_ge NaN _ = False"
| "f_ge _ NaN = False"
| "f_ge PosInf _ = True"
| "f_ge _ NegInf = True"
| "f_ge (Finite a) (Finite b) = (a \<ge> b)"
| "f_ge _ _ = False"

fun f_minus :: "fvalue \<Rightarrow> fvalue \<Rightarrow> fvalue" where
  "f_minus NaN _ = NaN"
| "f_minus _ NaN = NaN"
| "f_minus (Finite a) (Finite b) = Finite (a - b)"
| "f_minus PosInf PosInf = NaN"
| "f_minus NegInf NegInf = NaN"
| "f_minus PosInf _ = PosInf"
| "f_minus NegInf _ = NegInf"
| "f_minus (Finite a) PosInf = NegInf"
| "f_minus (Finite a) NegInf = PosInf"

text \<open>One step of the scan of the raw array: the point \<open>n\<close> with value \<open>fval\<close> enters
  \<^verbatim>\<open>first_idx\<close> as the first point of its group, if it is an electrode and the group has
  none yet. \<^verbatim>\<open>int\<close> raises on an infinite value or a NaN.\<close>

definition note_group :: "fvalue \<Rightarrow> int \<Rightarrow> fvalue \<Rightarrow> int list \<Rightarrow> f64 exn + int list" where
  "note_group max_voltage n fval first_idx =
     (if f_ge fval (f_double max_voltage) then
        (case f_minus fval (f_double max_voltage) of
           Finite r \<Rightarrow>
             (let ival = py_int r in
              if real_of_int ival = r \<and> ival \<ge> 1 \<and> ival \<le> 30 then
                Inr (if first_idx ! nat ival = -1 then first_idx[nat ival := n] else first_idx)
              else if first_idx ! 0 = -1 then Inr (first_idx[0 := n])
              else Inr first_idx)
         | NaN \<Rightarrow> Inl ValueError
         | _ \<Rightarrow> Inl OverflowError)
      else Inr first_idx)"

fun scan_groups :: "f64 sharp \<Rightarrow> int list \<Rightarrow> int list \<Rightarrow> f64 exn + int list" where
  "scan_groups sharp [] first_idx = Inr first_idx"
| "scan_groups sharp (n # ns) first_idx =
     and_then (py_get (sharp_points sharp) n) (\<lambda>fval.
     and_then (note_group (f64_value (sharp_max_voltage sharp)) n (f64_value fval) first_idx)
       (\<lambda>first_idx. scan_groups sharp ns first_idx))"

definition save_stats :: "f64 pa \<Rightarrow> f64 exn + byte list" where
  "save_stats self =
     (case self_pasharp self of
        None \<Rightarrow> Inr []
      | Some sharp \<Rightarrow>
          if \<not> (sharp_nx sharp = self_nx self \<and> sharp_ny sharp = self_ny self \<and>
                 sharp_nz sharp = self_nz self)
          then Inl (AssertionError (Some [Txt ''PA# dimensions does not match PA0 dimensions'']))
          else
            and_then (scan_groups sharp (py_range 0 (int (length (self_points self))) 1)
                        (replicate 31 (-1))) (\<lambda>first_idx.
            let num_electrodes =
                  (if first_idx ! 0 \<noteq> -1 then 1 else 0)
                  + int (length (filter (\<lambda>i. i \<noteq> -1) (tl first_idx)))
            in and_then (pack_i num_electrodes) (\<lambda>b1.
               and_then (pack_ints first_idx) (\<lambda>b2.
               and_then (pack_i (-1)) (\<lambda>b3.
                 Inr (b1 @ pack_d f64_10000 @ b2 @ b3))))))"

text \<open>\<^verbatim>\<open>save\<close>: the bytes that it writes to the file. Failures of the operating system
  in opening or writing the file are not part of the model.\<close>

definition save :: "f64 pa \<Rightarrow> f64 exn + byte list" where
  "save self =
     and_then (save_header self) (\<lambda>header_str.
     and_then
       (if self_nx self = 0 then Inl ValueError
        else write_rows (self_nx self)
               (py_range 0 (int (length (self_points self))) (self_nx self))
               (self_points self)) (\<lambda>rows.
     and_then (save_stats self) (\<lambda>stats. Inr (header_str @ rows @ stats))))"

text \<open>What the header of a file declares, read off its bytes: the mode, the three
  dimensions, and the length that the header and the dimensions imply for the file
  (32 bytes of header, 24 more in mode -2, and 8 bytes for each point).\<close>

definition file_mode :: "byte list \<Rightarrow> int" where
  "file_mode file = unpack_i (take 4 file)"

definition file_nx :: "byte list \<Rightarrow> int" where
  "file_nx file = unpack_i (take 4 (drop 16 file))"

definition file_ny :: "byte list \<Rightarrow> int" where
  "file_ny file = unpack_i (take 4 (drop 20 file))"

definition file_nz :: "byte list \<Rightarrow> int" where
  "file_nz file = unpack_i (take 4 (drop 24 file))"

definition implied_length :: "byte list \<Rightarrow> nat" where
  "implied_length file =
     (if file_mode file \<le> -2 then 56 else 32)
     + 8 * nat (file_nx file * file_ny file * file_nz file)"

text \<open>The instance that results from installing, without any check, the header that a
  file declares: the fields are read off the bytes at their offsets, the spacings being
  present in mode -2 only.\<close>

definition file_header :: "string \<Rightarrow> byte list \<Rightarrow> f64 pa \<Rightarrow> f64 pa" where
  "file_header path file self =
     install_header path (file_mode file)
       (unpack_i (take 4 (drop 4 file))) (unpack_d (take 8 (drop 8 file)))
       (file_nx file) (file_ny file) (file_nz file)
       (unpack_i (take 4 (drop 28 file)))
       (if file_mode file \<le> -2 then unpack_d (take 8 (drop 32 file)) else f64_one)
       (if file_mode file \<le> -2 then unpack_d (take 8 (drop 40 file)) else f64_one)
       (if file_mode file \<le> -2 then unpack_d (take 8 (drop 48 file)) else f64_one)
       self"

text \<open>The keyword arguments with which \<^verbatim>\<open>check\<close> validates the integer, string and flag
  attributes of an instance.\<close>

definition header_args :: "'f pa \<Rightarrow> 'g check_args" where
  "header_args self =
     no_args\<lparr>arg_mode := Some (self_mode self),
             arg_field_type := Some (self_field_type self),
             arg_symmetry := Some (self_symmetry self),
             arg_mirror_x := Some (self_mirror_x self),
             arg_mirror_y := Some (self_mirror_y self),
             arg_mirror_z := Some (self_mirror_z self),
             arg_nx := Some (self_nx self), arg_ny := Some (self_ny self),
             arg_nz := Some (self_nz self),
             arg_ng := Some (self_ng self)\<rparr>"

subsection \<open>Construction\<close>

text \<open>The instance that \<^verbatim>\<open>PA(nx = nx, ny = ny, nz = nz)\<close> builds from the defaults of the
  constructor once its checks have passed: planar, electrostatic, not mirrored, all
  points 0.\<close>

definition PA_new :: "int \<Rightarrow> int \<Rightarrow> int \<Rightarrow> real pa" where
  "PA_new nx ny nz =
     \<lparr>self_mode = -1, self_symmetry = ''planar'', self_max_voltage = 100000,
      self_nx = nx, self_ny = ny, self_nz = nz,
      self_mirror_x = False, self_mirror_y = False, self_mirror_z = False,
      self_field_type = ''electrostatic'', self_ng = 100,
      self_dx_mm = 1, self_dy_mm = 1, self_dz_mm = 1,
      self_fast_adjustable = False, self_error = None, self_pasharp = None,
      self_points = replicate (nat (nx * ny * nz)) 0\<rparr>"

subsection \<open>Auxiliary notions for the proofs\<close>

text \<open>The checkers touch nothing but the last-error slot: two states agree up to that
  slot when they are equal once it is cleared.\<close>

definition forget_error :: "'f pa \<Rightarrow> 'f pa" where
  "forget_error self = self\<lparr>self_error := None\<rparr>"


subsection \<open>Example instances\<close>

text \<open>A 3 by 3 planar array in which the point (0,0,0) is an electrode at 5 V and the
  point (1,0,0) a non-electrode at 7 V, as left by \<^verbatim>\<open>pa.point(0,0,0,1,5.0)\<close> and
  \<^verbatim>\<open>pa.potential(1,0,0,7.0)\<close> on \<^verbatim>\<open>PA()\<close>.\<close>

definition PA_example :: "real pa" where
  "PA_example = (PA_new 3 3 1)\<lparr>self_points := [200005, 7, 0, 0, 0, 0, 0, 0, 0]\<rparr>"




text \<open>A magnetic planar array of 5 by 3 points with scale factor \<^verbatim>\<open>ng\<close> 2, all points 0,
  as built by \<^verbatim>\<open>PA(nx = 5, ny = 3, field_type = 'magnetic', ng = 2)\<close>.\<close>

definition PA_magnetic :: "real pa" where
  "PA_magnetic = (PA_new 5 3 1)\<lparr>self_field_type := ''magnetic'', self_ng := 2\<rparr>"

text \<open>\<^verbatim>\<open>PA()\<close> with its doubles as bit patterns: the instance on which the examples call
  \<^verbatim>\<open>load\<close>.\<close>

definition PA_f64 :: "f64 pa" where
  "PA_f64 =
     \<lparr>self_mode = -1, self_symmetry = ''planar'', self_max_voltage = f64_100000,
      self_nx = 3, self_ny = 3, self_nz = 1,
      self_mirror_x = False, self_mirror_y = False, self_mirror_z = False,
      self_field_type = ''electrostatic'', self_ng = 100,
      self_dx_mm = f64_one, self_dy_mm = f64_one, self_dz_mm = f64_one,
      self_fast_adjustable = False, self_error = None, self_pasharp = None,
      self_points = replicate 9 0\<rparr>"

text \<open>A file of 32 bytes: mode -1, planar, \<^verbatim>\<open>max_voltage\<close> 0.0, \<open>nx = 3\<close>, \<open>ny = 3\<close>,
  \<open>nz = 1\<close>, no mirroring, and none of the 72 bytes of its 9 points.\<close>

definition header_only :: "byte list" where
  "header_only =
     [0xFF, 0xFF, 0xFF, 0xFF,  1, 0, 0, 0,  0, 0, 0, 0, 0, 0, 0, 0,
      3, 0, 0, 0,  3, 0, 0, 0,  1, 0, 0, 0,  0, 0, 0, 0]"

text \<open>The same header with \<open>nx = 0\<close>: a file of 32 bytes that declares no points.\<close>

definition zero_nx_file :: "byte list" where
  "zero_nx_file =
     [0xFF, 0xFF, 0xFF, 0xFF,  1, 0, 0, 0,  0, 0, 0, 0, 0, 0, 0, 0,
      0, 0, 0, 0,  3, 0, 0, 0,  1, 0, 0, 0,  0, 0, 0, 0]"

text \<open>A complete file whose header no checker would accept: mode -1, cylindrical,
  \<open>nx = 2\<close>, \<open>ny = 1\<close>, \<open>nz = 2\<close>, no mirroring, and its 4 points (1.0, 0.0, 0.0, 0.0).\<close>

definition unchecked_file :: "byte list" where
  "unchecked_file =
     [0xFF, 0xFF, 0xFF, 0xFF,  0, 0, 0, 0,  0, 0, 0, 0, 0, 0, 0, 0,
      2, 0, 0, 0,  1, 0, 0, 0,  2, 0, 0, 0,  0, 0, 0, 0,
      0, 0, 0, 0, 0, 0, 0xF0, 0x3F,  0, 0, 0, 0, 0, 0, 0, 0,
      0, 0, 0, 0, 0, 0, 0, 0,  0, 0, 0, 0, 0, 0, 0, 0]"

text \<open>A complete planar file of 3 by 3 by 1 points, all 0.0, whose header sets the
  mirror bit of z.\<close>

definition mirror_z_file :: "byte list" where
  "mirror_z_file =
     [0xFF, 0xFF, 0xFF, 0xFF,  1, 0, 0, 0,  0, 0, 0, 0, 0, 0, 0, 0,
      3, 0, 0, 0,  3, 0, 0, 0,  1, 0, 0, 0,  4, 0, 0, 0,
      0, 0, 0, 0, 0, 0, 0, 0,  0, 0, 0, 0, 0, 0, 0, 0,  0, 0, 0, 0, 0, 0, 0, 0,
      0, 0, 0, 0, 0, 0, 0, 0,  0, 0, 0, 0, 0, 0, 0, 0,  0, 0, 0, 0, 0, 0, 0, 0,
      0, 0, 0, 0, 0, 0, 0, 0,  0, 0, 0, 0, 0, 0, 0, 0,  0, 0, 0, 0, 0, 0, 0, 0]"

text \<open>The file system of the examples.\<close>

definition fs_examples :: "string \<Rightarrow> f64 message + byte list" where
  "fs_examples path =
     (if path = ''cut.pa'' then Inr header_only
      else if path = ''zero.pa'' then Inr zero_nx_file
      else if path = ''unchecked.pa#'' then Inr unchecked_file
      else if path = ''mirror.pa'' then Inr mirror_z_file
      else Inl [Txt ''[Errno 2] No such file or directory: '', Txt path])"

section \<open>Properties\<close>

subsection \<open>The checkers only write the last-error slot\<close>


lemmas checker_defs = check_field_type_def check_max_voltage_def check_mode_def check_ng_def
  check_nx_def check_ny_def check_nz_def check_symmetry_def check_dx_mm_def check_dy_mm_def
  check_dz_mm_def check_symmetry_rules_def

lemmas check_defs = check_def check_guards_def check_tail_def no_args_def guard_def
  check_size_def checker_defs fail_with_def header_args_def


lemma forget_error_float_checkers [simp]:
  "forget_error (snd (check_max_voltage mv self)) = forget_error self"
  "forget_error (snd (check_dx_mm d self)) = forget_error self"
  "forget_error (snd (check_dy_mm d self)) = forget_error self"
  "forget_error (snd (check_dz_mm d self)) = forget_error self"
  by (simp_all add: checker_defs fail_with_def forget_error_def)










subsection \<open>Indexing the store\<close>

lemma pos_bounds:
  assumes "inside self x y z"
  shows "0 \<le> pos self x y z" and "pos self x y z < self_nx self * self_ny self * self_nz self"
proof -
  from assms have b: "0 \<le> x" "x < self_nx self" "0 \<le> y" "y < self_ny self" "0 \<le> z" "z < self_nz self"
    by (simp_all add: inside_def)
  show "0 \<le> pos self x y z" using b by (simp add: pos_def)
  have "(z + 1) * self_ny self \<le> self_nz self * self_ny self"
    using b by (intro mult_right_mono) simp_all
  then have "z * self_ny self + y + 1 \<le> self_nz self * self_ny self"
    using b by (simp add: algebra_simps)
  then have "(z * self_ny self + y + 1) * self_nx self \<le> self_nz self * self_ny self * self_nx self"
    using b by (intro mult_right_mono) simp_all
  then show "pos self x y z < self_nx self * self_ny self * self_nz self"
    using b by (simp add: pos_def algebra_simps)
qed

lemma py_get_in_range: "0 \<le> i \<Longrightarrow> i < int (length xs) \<Longrightarrow> py_get xs i = Inr (xs ! nat i)"
  by (simp add: py_get_def py_index_def)



subsection \<open>Resizing clears the store\<close>



subsection \<open>Raising \<^verbatim>\<open>max_voltage\<close>\<close>





subsection \<open>The invariant checker\<close>

text \<open>Claim C7. Each of \<^verbatim>\<open>check(symmetry='cylindrical', nz=2)\<close>,
  \<^verbatim>\<open>check(symmetry='cylindrical', mirror_y=0)\<close> and \<^verbatim>\<open>check(mirror_z=1, nz=1)\<close>
  returns false and leaves its message in the last-error slot.\<close>

theorem check_symmetry_constraints:
  fixes self :: "'f::linordered_field pa"
  shows
  "check (no_args\<lparr>arg_symmetry := Some ''cylindrical'', arg_nz := Some 2\<rparr>) self =
     Inr (False, self\<lparr>self_error :=
       Some [Txt ''nz ('', IntV 2, Txt '') must be 1 under cylindrical symmetry.'']\<rparr>) \<and>
   check (no_args\<lparr>arg_symmetry := Some ''cylindrical'', arg_mirror_y := Some False\<rparr>) self =
     Inr (False, self\<lparr>self_error :=
       Some [Txt ''y mirroring must be enabled under cylindrical symmetry.'']\<rparr>) \<and>
   check (no_args\<lparr>arg_mirror_z := Some True, arg_nz := Some 1\<rparr>) self =
     Inr (False, self\<lparr>self_error :=
       Some [Txt ''nz ('', IntV 1, Txt '') cannot be 1 under z mirroring.'']\<rparr>)"
  by (simp add: check_def check_guards_def check_tail_def no_args_def guard_def
      check_symmetry_def check_nz_def check_symmetry_rules_def fail_with_def)

theorem check_symmetry_constraints_witness:
  "fst (projr (check (no_args\<lparr>arg_symmetry := Some ''cylindrical'', arg_nz := Some 2\<rparr>)
     PA_example)) = False \<and>
   self_error (snd (projr (check (no_args\<lparr>arg_mirror_z := Some True, arg_nz := Some 1\<rparr>)
     PA_example))) = Some [Txt ''nz ('', IntV 1, Txt '') cannot be 1 under z mirroring.'']"
  using check_symmetry_constraints [of PA_example] by simp

subsection \<open>The electrode encoding\<close>




subsection \<open>The real-coordinate inside test\<close>




subsection \<open>Interpolation at grid points\<close>

lemma py_int_of_int [simp]: "py_int (real_of_int n) = n"
  by (simp add: py_int_def)






subsection \<open>Field reconstruction\<close>

lemmas field_defs = set_field_def push_forward_def finalize_point_def and_then_def
  point_set_def store_potential_def raw_get_def potential_get_def inside_def pos_def
  py_get_def py_set_def py_index_def

lemma scan_order_5_3_1: "scan_order 5 3 1 =
  [(0,0,0),(1,0,0),(2,0,0),(3,0,0),(4,0,0),
   (0,1,0),(1,1,0),(2,1,0),(3,1,0),(4,1,0),
   (0,2,0),(1,2,0),(2,2,0),(3,2,0),(4,2,0)]"
  by (simp add: scan_order_def upto.simps)

lemma replicate_15: "replicate 15 x = [x, x, x, x, x, x, x, x, x, x, x, x, x, x, x]"
  by (simp add: numeral_eq_Suc)

lemma drive_field_5_3_1:
  fixes self :: "real pa"
  assumes "self_nx self = 5" "self_ny self = 3" "self_nz self = 1" "0 \<le> self_max_voltage self"
    "self_field_type self \<noteq> ''magnetic''" "self_points self = replicate 15 0"
  shows "drive_field self 1 0 0 =
     Inr (self\<lparr>self_points := [0,-1,-2,-3,-4, 0,-1,-2,-3,-4, 0,-1,-2,-3,-4]\<rparr>)"
proof -
  have e: "self = self\<lparr>self_points := [0,0,0,0,0, 0,0,0,0,0, 0,0,0,0,0]\<rparr>"
    using assms(6) by (simp add: numeral_eq_Suc)
  have "set_field_all (self\<lparr>self_points := [0,0,0,0,0, 0,0,0,0,0, 0,0,0,0,0]\<rparr>)
      (scan_order 5 3 1) 1 0 0 =
     Inr (self\<lparr>self_points := [0,-1,-2,-3,-4, 0,-1,-2,-3,-4, 0,-1,-2,-3,-4]\<rparr>)"
    unfolding scan_order_5_3_1 using assms(1-5) by (simp add: field_defs)
  then show ?thesis
    unfolding drive_field_def assms(1,2,3) using e by simp
qed

text \<open>Claim C1, amended. On an array of 5 by 3 by 1 points that is not magnetic, with all
  15 points 0 and non-electrode (\<open>0 \<le> max_voltage\<close>), the scan with the constant field
  \<open>(1, 0, 0)\<close> succeeds; afterwards \<open>potential(x, 0, 0) = -x\<close> for every x from 0 to 4, the
  origin is at 0, and no point is an electrode.\<close>

theorem field_reconstruction:
  fixes self :: "real pa"
  assumes "self_nx self = 5" and "self_ny self = 3" and "self_nz self = 1"
    and "self_points self = replicate 15 0" and "0 \<le> self_max_voltage self"
    and "self_field_type self \<noteq> ''magnetic''"
  shows "\<exists>s. drive_field self 1 0 0 = Inr s \<and>
           potential_get s 0 0 0 = Inr 0 \<and>
           (\<forall>x. 0 \<le> x \<and> x \<le> 4 \<longrightarrow> potential_get s x 0 0 = Inr (- real_of_int x)) \<and>
           (\<forall>x y z. inside s x y z \<longrightarrow> electrode_get s x y z = Inr False)"
proof -
  let ?pts = "[0,-1,-2,-3,-4, 0,-1,-2,-3,-4, 0,-1,-2,-3,-4] :: real list"
  let ?s = "self\<lparr>self_points := ?pts\<rparr>"
  have d: "drive_field self 1 0 0 = Inr ?s"
    using assms by (intro drive_field_5_3_1)
  have neg: "v \<le> 0" if "v \<in> set ?pts" for v
    using that by auto
  have xs: "x \<in> {0, 1, 2, 3, 4}" if "0 \<le> x" "x \<le> 4" for x :: int
    using that by auto
  have p: "potential_get ?s x 0 0 = Inr (- real_of_int x)" if "0 \<le> x" "x \<le> 4" for x
    using xs [OF that] assms(1,2,3,5)
    by (auto simp: potential_get_def inside_def pos_def py_get_def py_index_def)
  have el: "electrode_get ?s x y z = Inr False" if i: "inside ?s x y z" for x y z
  proof -
    note b = pos_bounds [OF i]
    have k: "nat (pos ?s x y z) < length ?pts"
      using b assms(1,2,3) by simp
    have "py_get ?pts (pos ?s x y z) = Inr (?pts ! nat (pos ?s x y z))"
      using b assms(1,2,3) by (intro py_get_in_range) simp_all
    moreover have "?pts ! nat (pos ?s x y z) \<le> 0"
      using k by (intro neg nth_mem)
    ultimately show ?thesis
      using i assms(5) by (simp add: electrode_get_def)
  qed
  from d p [of 0] p el show ?thesis
    by (intro exI [of _ ?s]) simp
qed

text \<open>Claim C1 as stated fails on a magnetic array: \<^verbatim>\<open>_set_field\<close> first divides the vector
  by \<^verbatim>\<open>ng\<close>, so with \<open>ng = 2\<close> the planar 5 by 3 by 1 array ends with
  \<open>potential(1, 0, 0) = -1/2\<close>.\<close>

theorem field_reconstruction_counterexample:
  "self_symmetry PA_magnetic = ''planar'' \<and> self_nx PA_magnetic = 5 \<and>
   self_ny PA_magnetic = 3 \<and> self_nz PA_magnetic = 1 \<and>
   self_points PA_magnetic = replicate 15 0 \<and>
   drive_field PA_magnetic 1 0 0 =
     Inr (PA_magnetic\<lparr>self_points :=
       [0, -1/2, -1, -3/2, -2, 0, -1/2, -1, -3/2, -2, 0, -1/2, -1, -3/2, -2]\<rparr>) \<and>
   potential_get (PA_magnetic\<lparr>self_points :=
       [0, -1/2, -1, -3/2, -2, 0, -1/2, -1, -3/2, -2, 0, -1/2, -1, -3/2, -2]\<rparr>) 1 0 0
     = Inr (-1/2)"
  by (simp add: drive_field_def scan_order_5_3_1 field_defs PA_magnetic_def PA_new_def
      replicate_15)

theorem field_reconstruction_witness:
  "self_nx (PA_new 5 3 1) = 5 \<and> self_ny (PA_new 5 3 1) = 3 \<and> self_nz (PA_new 5 3 1) = 1 \<and>
   self_points (PA_new 5 3 1) = replicate 15 0 \<and> 0 \<le> self_max_voltage (PA_new 5 3 1) \<and>
   self_field_type (PA_new 5 3 1) \<noteq> ''magnetic'' \<and>
   (\<exists>s. drive_field (PA_new 5 3 1) 1 0 0 = Inr s \<and>
        potential_get s 0 0 0 = Inr 0 \<and> potential_get s 1 0 0 = Inr (-1) \<and>
        potential_get s 2 0 0 = Inr (-2) \<and> potential_get s 3 0 0 = Inr (-3) \<and>
        potential_get s 4 0 0 = Inr (-4) \<and> electrode_get s 4 2 0 = Inr False)"
proof -
  have h: "self_nx (PA_new 5 3 1) = 5" "self_ny (PA_new 5 3 1) = 3" "self_nz (PA_new 5 3 1) = 1"
    "self_points (PA_new 5 3 1) = replicate 15 0" "0 \<le> self_max_voltage (PA_new 5 3 1)"
    "self_field_type (PA_new 5 3 1) \<noteq> ''magnetic''"
    by (simp_all add: PA_new_def)
  from field_reconstruction [OF h] obtain s where
    s: "drive_field (PA_new 5 3 1) 1 0 0 = Inr s" "potential_get s 0 0 0 = Inr 0"
    and p: "\<And>x. 0 \<le> x \<and> x \<le> 4 \<Longrightarrow> potential_get s x 0 0 = Inr (- real_of_int x)"
    and e: "\<And>x y z. inside s x y z \<Longrightarrow> electrode_get s x y z = Inr False"
    by blast
  have "s = (PA_new 5 3 1)\<lparr>self_points := [0,-1,-2,-3,-4, 0,-1,-2,-3,-4, 0,-1,-2,-3,-4]\<rparr>"
    using s(1) drive_field_5_3_1 [OF h(1,2,3,5,6,4)] by simp
  then have "inside s 4 2 0"
    by (simp add: inside_def PA_new_def)
  with e have "electrode_get s 4 2 0 = Inr False" by blast
  with s p [of 1] p [of 2] p [of 3] p [of 4] h show ?thesis
    by (intro conjI exI [of _ s]) simp_all
qed

subsection \<open>Loading a file that is long enough\<close>

lemmas load_defs = load_def load_body_def load_points_def install_header_def and_then_def
  read_bytes_def file_read_def unpack_i_def unpack_d_def wrap_reading_def py_range_def
  py_range_len_def unpack_doubles_def failed_reading_def slice_assign_def slice_bound_def
  hash_suffix_def

lemma read_rows_ok:
  "1 \<le> nx \<Longrightarrow> 8 * nat nx * length ns \<le> length rest \<Longrightarrow> \<exists>pts'. read_rows nx ns rest pts = Inr pts'"
proof (induction ns arbitrary: rest pts)
  case Nil
  then show ?case by simp
next
  case (Cons n ns)
  have l: "8 * nat nx \<le> length rest" "8 * nat nx * length ns \<le> length rest - 8 * nat nx"
    using Cons.prems by (simp_all add: algebra_simps)
  have n8: "nat (nx * 8) = 8 * nat nx"
    using Cons.prems(1) by (simp add: nat_mult_distrib)
  have r: "file_read (nx * 8) rest = (take (8 * nat nx) rest, drop (8 * nat nx) rest)"
    using Cons.prems(1) by (simp add: file_read_def n8)
  have u: "unpack_doubles nx (take (8 * nat nx) rest) = Inr (doubles (nat nx) (take (8 * nat nx) rest))"
    using l by (simp add: unpack_doubles_def)
  from Cons.IH [OF Cons.prems(1), of "drop (8 * nat nx) rest"] l(2)
  show ?case by (simp add: r u)
qed

lemma py_range_rows:
  assumes "1 \<le> nx"
  shows "nat nx * length (py_range 0 (nx * k) nx) = nat (nx * k)"
proof (cases "1 \<le> k")
  case True
  have "nx * k - 1 = nx * (k - 1) + (nx - 1)" by (simp add: algebra_simps)
  then have "(nx * k - 1) div nx = k - 1"
    using assms by (intro int_div_pos_eq [where r = "nx - 1"]) simp_all
  moreover have "0 < nx * k" using assms True by simp
  ultimately show ?thesis
    using assms True by (simp add: py_range_def py_range_len_def nat_mult_distrib)
next
  case False
  then have "nx * k \<le> 0" using assms by (simp add: mult_le_0_iff)
  then show ?thesis using assms by (simp add: py_range_def py_range_len_def)
qed

lemma load_points_ok:
  assumes "1 \<le> nx" and "8 * nat (nx * ny * nz) \<le> length rest"
  shows "\<exists>pts. load_points nx ny nz rest = Inr pts"
proof -
  have "nat nx * length (py_range 0 (nx * (ny * nz)) nx) = nat (nx * (ny * nz))"
    by (rule py_range_rows [OF assms(1)])
  then have "8 * nat nx * length (py_range 0 (nx * ny * nz) nx) \<le> length rest"
    using assms(2) by (simp add: mult.assoc)
  from read_rows_ok [OF assms(1) this] show ?thesis
    using assms(1) by (simp add: load_points_def Let_def)
qed

lemma header_fields:
  "take 4 (take 28 (drop 4 file)) = take 4 (drop 4 file)"
  "take 8 (drop 4 (take 28 (drop 4 file))) = take 8 (drop 8 file)"
  "take 4 (drop 12 (take 28 (drop 4 file))) = take 4 (drop 16 file)"
  "take 4 (drop 16 (take 28 (drop 4 file))) = take 4 (drop 20 file)"
  "take 4 (drop 20 (take 28 (drop 4 file))) = take 4 (drop 24 file)"
  "take 4 (drop 24 (take 28 (drop 4 file))) = take 4 (drop 28 file)"
  "take 8 (take 24 (drop 32 file)) = take 8 (drop 32 file)"
  "take 8 (drop 8 (take 24 (drop 32 file))) = take 8 (drop 40 file)"
  "take 8 (drop 16 (take 24 (drop 32 file))) = take 8 (drop 48 file)"
  by (simp_all add: drop_take)

lemma and_then_simps [simp]:
  "and_then (Inr v) f = f v" "and_then (Inl e) f = Inl e"
  by (simp_all add: and_then_def)

lemma load_body_long:
  assumes "read_bytes file 4 = Inr (take 4 file, drop 4 file)"
    and "read_bytes (drop 4 file) 28 = Inr (take 28 (drop 4 file), drop 32 file)"
    and "file_mode file = -1 \<or>
         file_mode file = -2 \<and>
         read_bytes (drop 32 file) 24 = Inr (take 24 (drop 32 file), drop 56 file)"
  shows "load_body path file self =
    and_then (load_points (file_nx file) (file_ny file) (file_nz file)
                (drop (if file_mode file \<le> -2 then 56 else 32) file))
      (\<lambda>pts. Inr ((file_header path file self)\<lparr>self_points := pts\<rparr>))"
  using assms(3)
proof
  assume a: "file_mode file = -1"
  then have m: "unpack_i (take 4 file) = -1"
    by (simp add: file_mode_def)
  show ?thesis
    unfolding load_body_def file_header_def file_nx_def file_ny_def file_nz_def file_mode_def
    by (simp add: assms(1,2) m Let_def header_fields)
next
  assume a: "file_mode file = -2 \<and>
         read_bytes (drop 32 file) 24 = Inr (take 24 (drop 32 file), drop 56 file)"
  then have m: "unpack_i (take 4 file) = -2"
    by (simp add: file_mode_def)
  show ?thesis
    unfolding load_body_def file_header_def file_nx_def file_ny_def file_nz_def file_mode_def
    using a by (simp add: assms(1,2) m Let_def header_fields)
qed

lemma load_long_enough:
  assumes "fs path = Inr file"
    and "file_mode file = -1 \<or> file_mode file = -2"
    and "1 \<le> file_nx file"
    and "implied_length file \<le> length file"
  shows "\<exists>pts. load fs path self = Inr ((file_header path file self)\<lparr>self_points := pts\<rparr>)"
proof -
  let ?hl = "if file_mode file \<le> -2 then 56 else 32 :: nat"
  have len: "?hl \<le> length file"
    "8 * nat (file_nx file * file_ny file * file_nz file) \<le> length (drop ?hl file)"
    using assms(4) by (simp_all add: implied_length_def)
  from load_points_ok [OF assms(3) len(2)] obtain pts where
    pts: "load_points (file_nx file) (file_ny file) (file_nz file) (drop ?hl file) = Inr pts"
    by blast
  have r1: "read_bytes file 4 = Inr (take 4 file, drop 4 file)"
    using len(1) by (simp add: read_bytes_def file_read_def split: if_splits)
  have r2: "read_bytes (drop 4 file) 28 = Inr (take 28 (drop 4 file), drop 32 file)"
    using len(1) by (simp add: read_bytes_def file_read_def split: if_splits)
  have r3: "read_bytes (drop 32 file) 24 = Inr (take 24 (drop 32 file), drop 56 file)"
    if "file_mode file = -2"
    using len(1) that by (simp add: read_bytes_def file_read_def)
  have "load_body path file self =
    and_then (load_points (file_nx file) (file_ny file) (file_nz file) (drop ?hl file))
      (\<lambda>pts. Inr ((file_header path file self)\<lparr>self_points := pts\<rparr>))"
    using assms(2) r3 by (intro load_body_long [OF r1 r2]) blast
  then show ?thesis
    by (intro exI [of _ pts]) (simp add: load_def assms(1) pts wrap_reading_def)
qed

lemma file_header_unchecked: "file_header ''unchecked.pa#'' unchecked_file PA_f64 =
   PA_f64\<lparr>self_symmetry := ''cylindrical'', self_max_voltage := 0, self_nx := 2, self_ny := 1,
     self_nz := 2, self_ng := 0, self_fast_adjustable := True\<rparr>"
  by (simp add: file_header_def install_header_def unchecked_file_def file_mode_def file_nx_def
      file_ny_def file_nz_def unpack_i_def unpack_d_def hash_suffix_def PA_f64_def)


lemma file_header_mirror: "file_header ''mirror.pa'' mirror_z_file PA_f64 =
   PA_f64\<lparr>self_max_voltage := 0, self_mirror_z := True, self_ng := 0\<rparr>"
  by (simp add: file_header_def install_header_def mirror_z_file_def file_mode_def file_nx_def
      file_ny_def file_nz_def unpack_i_def unpack_d_def hash_suffix_def PA_f64_def)

lemma check_unchecked: "check (header_args (PA_f64\<lparr>self_symmetry := ''cylindrical'', self_max_voltage := 0, self_nx := 2, self_ny := 1,
     self_nz := 2, self_ng := 0, self_fast_adjustable := True, self_points := pts\<rparr>)) PA_example =
   Inr (False, PA_example\<lparr>self_error := Some [Txt ''nx value ('', IntV 2, Txt '') must be no less than 3.'']\<rparr>)"
  by (simp add: check_defs PA_f64_def)

lemma check_mirror: "check (header_args (PA_f64\<lparr>self_max_voltage := 0, self_mirror_z := True, self_ng := 0, self_points := pts\<rparr>)) PA_example =
   Inr (False, PA_example\<lparr>self_error := Some [Txt ''nz ('', IntV 1, Txt '') cannot be 1 under z mirroring.'']\<rparr>)"
  by (simp add: check_defs PA_f64_def)

lemma example_files: "file_mode unchecked_file = -1" "file_nx unchecked_file = 2" "implied_length unchecked_file = 64"
  "length unchecked_file = 64" "file_mode mirror_z_file = -1" "file_nx mirror_z_file = 3"
  "implied_length mirror_z_file = 104" "length mirror_z_file = 104"
  by (simp_all add: unchecked_file_def mirror_z_file_def file_mode_def file_nx_def file_ny_def
      file_nz_def implied_length_def unpack_i_def)

text \<open>Claim C10, amended. \<^verbatim>\<open>load\<close> never calls a checker. For a readable file whose header
  has \<open>nx \<ge> 1\<close>, whose mode is -1 or -2 and which is as long as its header and dimensions
  imply, \<^verbatim>\<open>load\<close> succeeds and installs the header as it stands. So the file
  \<^verbatim>\<open>unchecked.pa#\<close> (cylindrical, \<open>nx = 2\<close>, \<open>nz = 2\<close>, y not mirrored) and the file
  \<^verbatim>\<open>mirror.pa\<close> (z mirrored with \<open>nz = 1\<close>) are loaded, although \<^verbatim>\<open>check\<close> rejects
  the configurations they install.\<close>

theorem load_without_check:
  "(fs path = Inr file \<and> (file_mode file = -1 \<or> file_mode file = -2) \<and>
    1 \<le> file_nx file \<and> implied_length file \<le> length file \<longrightarrow>
      (\<exists>pts. load fs path self = Inr ((file_header path file self)\<lparr>self_points := pts\<rparr>))) \<and>
   (\<exists>s. load fs_examples ''unchecked.pa#'' PA_f64 = Inr s \<and>
        self_symmetry s = ''cylindrical'' \<and> self_nx s = 2 \<and> self_nz s = 2 \<and>
        \<not> self_mirror_y s \<and>
        check (header_args s) PA_example =
          Inr (False, PA_example\<lparr>self_error :=
            Some [Txt ''nx value ('', IntV 2, Txt '') must be no less than 3.'']\<rparr>)) \<and>
   (\<exists>s. load fs_examples ''mirror.pa'' PA_f64 = Inr s \<and>
        self_mirror_z s \<and> self_nz s = 1 \<and>
        check (header_args s) PA_example =
          Inr (False, PA_example\<lparr>self_error :=
            Some [Txt ''nz ('', IntV 1, Txt '') cannot be 1 under z mirroring.'']\<rparr>))"
proof -
  have u: "fs_examples ''unchecked.pa#'' = Inr unchecked_file"
    and m: "fs_examples ''mirror.pa'' = Inr mirror_z_file"
    by (simp_all add: fs_examples_def)
  from load_long_enough [of fs_examples "''unchecked.pa#''" unchecked_file PA_f64] u
  obtain pts where
    "load fs_examples ''unchecked.pa#'' PA_f64 =
       Inr ((file_header ''unchecked.pa#'' unchecked_file PA_f64)\<lparr>self_points := pts\<rparr>)"
    by (auto simp: example_files)
  then have 1: "\<exists>s. load fs_examples ''unchecked.pa#'' PA_f64 = Inr s \<and>
        self_symmetry s = ''cylindrical'' \<and> self_nx s = 2 \<and> self_nz s = 2 \<and>
        \<not> self_mirror_y s \<and>
        check (header_args s) PA_example =
          Inr (False, PA_example\<lparr>self_error :=
            Some [Txt ''nx value ('', IntV 2, Txt '') must be no less than 3.'']\<rparr>)"
    by (simp add: file_header_unchecked check_unchecked) (simp add: PA_f64_def)
  from load_long_enough [of fs_examples "''mirror.pa''" mirror_z_file PA_f64] m
  obtain pts' where
    "load fs_examples ''mirror.pa'' PA_f64 =
       Inr ((file_header ''mirror.pa'' mirror_z_file PA_f64)\<lparr>self_points := pts'\<rparr>)"
    by (auto simp: example_files)
  then have 2: "\<exists>s. load fs_examples ''mirror.pa'' PA_f64 = Inr s \<and>
        self_mirror_z s \<and> self_nz s = 1 \<and>
        check (header_args s) PA_example =
          Inr (False, PA_example\<lparr>self_error :=
            Some [Txt ''nz ('', IntV 1, Txt '') cannot be 1 under z mirroring.'']\<rparr>)"
    by (simp add: file_header_mirror check_mirror) (simp add: PA_f64_def)
  from 1 2 load_long_enough [of fs path "file" self] show ?thesis
    by (intro conjI impI) blast+
qed

theorem load_without_check_witness:
  "fs_examples ''mirror.pa'' = Inr mirror_z_file \<and> file_mode mirror_z_file = -1 \<and>
   1 \<le> file_nx mirror_z_file \<and> implied_length mirror_z_file \<le> length mirror_z_file \<and>
   (\<exists>pts. load fs_examples ''mirror.pa'' PA_f64 =
      Inr (PA_f64\<lparr>self_max_voltage := 0, self_mirror_z := True, self_ng := 0,
                  self_points := pts\<rparr>))"
proof -
  have m: "fs_examples ''mirror.pa'' = Inr mirror_z_file"
    by (simp add: fs_examples_def)
  from load_without_check [of fs_examples "''mirror.pa''" mirror_z_file PA_f64] m
  show ?thesis
    by (simp add: example_files file_header_mirror)
qed

subsection \<open>Failures of \<^verbatim>\<open>load\<close>\<close>

text \<open>The header is read through \<^verbatim>\<open>_read_bytes\<close>: a file that ends inside the header, or
  whose mode is neither -1 nor -2, fails with a \<^verbatim>\<open>PAError\<close> that names the path.\<close>

lemma load_header_failures:
  assumes "fs path = Inr file"
  shows "length file < 4 \<Longrightarrow>
           load fs path self = Inl (failed_reading path [Txt ''Bytes missing from file.''])"
    and "4 \<le> length file \<Longrightarrow> file_mode file \<noteq> -1 \<Longrightarrow> file_mode file \<noteq> -2 \<Longrightarrow>
           load fs path self =
             Inl (failed_reading path [Txt [CHR 0x27], Txt ''invalid mode ('',
                    IntV (file_mode file), Txt '')'', Txt [CHR 0x27]])"
    and "4 \<le> length file \<Longrightarrow> length file < 32 \<Longrightarrow> file_mode file = -1 \<or> file_mode file = -2 \<Longrightarrow>
           load fs path self = Inl (failed_reading path [Txt ''Bytes missing from file.''])"
  using assms
  by (auto simp: load_def load_body_def and_then_def wrap_reading_def read_bytes_def
      file_read_def file_mode_def Let_def)

text \<open>Claim C5 fails on the code where the file ends inside the point data: the rows are
  read with \<^verbatim>\<open>f.read\<close>, and \<^verbatim>\<open>struct.unpack\<close> raises \<^verbatim>\<open>struct.error\<close> on the short
  buffer, which neither handler of \<^verbatim>\<open>load\<close> catches. The file \<^verbatim>\<open>cut.pa\<close> has a complete
  header for 3 by 3 by 1 points and 32 of the 104 bytes it implies; loading it raises
  \<^verbatim>\<open>struct.error\<close>, not the \<^verbatim>\<open>PAError\<close> that names the path.\<close>

theorem load_truncated_points:
  "fs_examples ''cut.pa'' = Inr header_only \<and>
   file_mode header_only = -1 \<and> file_nx header_only = 3 \<and> file_ny header_only = 3 \<and>
   file_nz header_only = 1 \<and> length header_only = 32 \<and> implied_length header_only = 104 \<and>
   load fs_examples ''cut.pa'' PA_f64 = Inl StructError"
  by (simp add: load_defs fs_examples_def header_only_def upt_conv_Cons
      file_mode_def file_nx_def file_ny_def file_nz_def implied_length_def)


text \<open>Claim C10 as stated fails on a header with \<open>nx = 0\<close>: the file \<^verbatim>\<open>zero.pa\<close> is
  readable, has mode -1 and exactly the 32 bytes that its header implies, and loading it
  raises ValueError, from \<^verbatim>\<open>range\<close> with the step 0.\<close>

theorem load_zero_nx_counterexample:
  "fs_examples ''zero.pa'' = Inr zero_nx_file \<and> file_mode zero_nx_file = -1 \<and>
   file_nx zero_nx_file = 0 \<and>
   implied_length zero_nx_file = 32 \<and> length zero_nx_file = 32 \<and>
   load fs_examples ''zero.pa'' PA_f64 = Inl ValueError"
  by (simp add: load_defs fs_examples_def zero_nx_file_def
      file_mode_def file_nx_def file_ny_def file_nz_def implied_length_def)


subsection \<open>The binary codec\<close>

lemma length_le_bytes [simp]: "length (le_bytes n w) = n"
  by (simp add: le_bytes_def)

lemma le_bytes_Suc: "le_bytes (Suc n) w = ucast w # le_bytes n (drop_bit 8 w)"
proof -
  have "[0..<Suc n] = 0 # map Suc [0..<n]"
    by (simp add: upt_conv_Cons map_Suc_upt del: upt_Suc)
  then show ?thesis
    by (simp add: le_bytes_def drop_bit_drop_bit comp_def add.commute del: upt_Suc)
qed

lemma le_word_le_bytes: "le_word (le_bytes n w) = take_bit (8 * n) w"
proof (induction n arbitrary: w)
  case 0
  then show ?case by (simp add: le_bytes_def)
next
  case (Suc n)
  show ?case
    by (rule bit_eqI)
      (auto simp: le_bytes_Suc Suc.IH bit_simps)
qed

lemma le_word_32: "le_word (le_bytes 4 (w :: 32 word)) = w"
  by (simp add: le_word_le_bytes take_bit_word_eq_self)

lemma le_word_64: "le_word (le_bytes 8 (w :: 64 word)) = w"
  by (simp add: le_word_le_bytes take_bit_word_eq_self)

lemma bit_small:
  "bit (1::int) n = (n = 0)" "bit (2::int) n = (n = 1)"
  "bit (4::int) n = (n = 2)" "bit (8::int) n = (n = 3)"
proof -
  show "bit (1::int) n = (n = 0)" by (simp add: bit_1_iff)
  have "bit (push_bit 1 (1::int)) n = (n = 1)" "bit (push_bit 2 (1::int)) n = (n = 2)"
    "bit (push_bit 3 (1::int)) n = (n = 3)"
    by (auto simp only: bit_push_bit_iff bit_1_iff possible_bit_int)
  then show "bit (2::int) n = (n = 1)" "bit (4::int) n = (n = 2)" "bit (8::int) n = (n = 3)"
    by simp_all
qed

lemma flag_bit: "(drop_bit j (k::int) AND 1 \<noteq> 0) = bit k j"
  by (simp add: and_one_eq bit_iff_odd_drop_bit odd_iff_mod_2_eq_one)

lemma sint_word_of_int_32: "- (2 ^ 31) \<le> n \<Longrightarrow> n < 2 ^ 31 \<Longrightarrow> sint (word_of_int n :: 32 word) = n"
  by (simp add: sint_sbintrunc' signed_take_bit_int_eq_self)


lemma int_bits_bounded:
  fixes k :: int
  assumes "\<And>n. bit k n \<Longrightarrow> n < m"
  shows "0 \<le> k \<and> k < 2 ^ m"
proof -
  have "take_bit m k = k"
    by (rule bit_eqI) (auto simp: bit_take_bit_iff dest: assms)
  then show ?thesis
    by (simp add: take_bit_int_eq_self_iff)
qed

lemma bit_bounded_int:
  fixes k :: int
  assumes "0 \<le> k" "k < 2 ^ m" "bit k n"
  shows "n < m"
proof -
  have "take_bit m k = k" using assms(1,2) by (simp add: take_bit_int_eq_self)
  then have "bit (take_bit m k) n" using assms(3) by simp
  then show ?thesis by (simp add: bit_take_bit_iff)
qed

lemma ng_decode:
  fixes ng low :: int
  assumes "0 \<le> ng" "ng < 2 ^ 17" "0 \<le> low" "low < 2 ^ 4"
  shows "drop_bit 4 (low OR push_bit 4 ng) AND (push_bit 17 1 - 1) = ng"
proof (rule bit_eqI)
  fix n
  have m: "push_bit 17 (1::int) - 1 = mask 17" by (simp add: mask_eq_exp_minus_1 push_bit_eq_mult)
  have l: "\<not> bit low (4 + n)" using bit_bounded_int [OF assms(3,4), of "4 + n"] by auto
  have g: "bit ng n \<Longrightarrow> n < 17" using bit_bounded_int [OF assms(1,2), of n] by auto
  show "bit (drop_bit 4 (low OR push_bit 4 ng) AND (push_bit 17 1 - 1)) n = bit ng n"
    unfolding m using l g by (auto simp: bit_simps)
qed


lemma pack_i_unpack:
  assumes "pack_i n = Inr bs"
  shows "unpack_i bs = n" and "length bs = 4"
proof -
  from assms have r: "- (2 ^ 31) \<le> n" "n < 2 ^ 31" and bs: "bs = le_bytes 4 (word_of_int n :: 32 word)"
    by (auto simp: pack_i_def split: if_splits)
  show "unpack_i bs = n"
    using r by (simp add: bs unpack_i_def le_word_32 sint_word_of_int_32)
  show "length bs = 4" by (simp add: bs)
qed

lemma pack_i_ok: "- (2 ^ 31) \<le> n \<Longrightarrow> n < 2 ^ 31 \<Longrightarrow> \<exists>bs. pack_i n = Inr bs"
  by (simp add: pack_i_def)

lemma unpack_d_pack_d [simp]: "unpack_d (pack_d v) = v"
  by (simp add: unpack_d_def pack_d_def le_word_64)

lemma length_pack_d [simp]: "length (pack_d v) = 8"
  by (simp add: pack_d_def)

lemma raw_mirror_bits:
  assumes "0 \<le> self_ng self"
  shows "bit (raw_mirror_of self) n \<longleftrightarrow>
    (n = 0 \<and> self_mirror_x self) \<or> (n = 1 \<and> self_mirror_y self) \<or>
    (n = 2 \<and> self_mirror_z self) \<or> (n = 3 \<and> self_field_type self = ''magnetic'') \<or>
    (4 \<le> n \<and> 1 \<le> self_ng self \<and> self_ng self \<le> 90000 \<and> bit (self_ng self) (n - 4))"
  by (auto simp: raw_mirror_of_def Let_def bit_or_iff bit_small bit_push_bit_iff)

lemma raw_mirror_range: 
  assumes "0 \<le> self_ng self"
  shows "0 \<le> raw_mirror_of self \<and> raw_mirror_of self < 2 ^ 21"
proof (rule int_bits_bounded)
  fix n
  assume b: "bit (raw_mirror_of self) n"
  have "n - 4 < 17" if "1 \<le> self_ng self" "self_ng self \<le> 90000" "bit (self_ng self) (n - 4)"
    using that by (intro bit_bounded_int [of "self_ng self"]) simp_all
  with b show "n < 21"
    unfolding raw_mirror_bits [OF assms] by auto
qed

lemma raw_mirror_decode:
  assumes "0 \<le> self_ng self"
  shows "(raw_mirror_of self AND 1 \<noteq> 0) = self_mirror_x self"
    and "(drop_bit 1 (raw_mirror_of self) AND 1 \<noteq> 0) = self_mirror_y self"
    and "(drop_bit 2 (raw_mirror_of self) AND 1 \<noteq> 0) = self_mirror_z self"
    and "(drop_bit 3 (raw_mirror_of self) AND 1 \<noteq> 0) = (self_field_type self = ''magnetic'')"
    and "drop_bit 4 (raw_mirror_of self) AND (push_bit 17 1 - 1) =
         (if 1 \<le> self_ng self \<and> self_ng self \<le> 90000 then self_ng self else 0)"
proof -
  note rb = raw_mirror_bits [OF assms]
  show "(raw_mirror_of self AND 1 \<noteq> 0) = self_mirror_x self"
    using flag_bit [of 0 "raw_mirror_of self"] by (simp add: rb)
  show "(drop_bit 1 (raw_mirror_of self) AND 1 \<noteq> 0) = self_mirror_y self"
    unfolding flag_bit by (simp add: rb)
  show "(drop_bit 2 (raw_mirror_of self) AND 1 \<noteq> 0) = self_mirror_z self"
    unfolding flag_bit by (simp add: rb)
  show "(drop_bit 3 (raw_mirror_of self) AND 1 \<noteq> 0) = (self_field_type self = ''magnetic'')"
    unfolding flag_bit by (simp add: rb)
  have m: "push_bit 17 (1::int) - 1 = mask 17"
    by (simp add: mask_eq_exp_minus_1 push_bit_eq_mult)
  show "drop_bit 4 (raw_mirror_of self) AND (push_bit 17 1 - 1) =
         (if 1 \<le> self_ng self \<and> self_ng self \<le> 90000 then self_ng self else 0)"
  proof (rule bit_eqI)
    fix n
    have g: "n < 17" if "1 \<le> self_ng self" "self_ng self \<le> 90000" "bit (self_ng self) n"
      using that by (intro bit_bounded_int [of "self_ng self"]) simp_all
    show "bit (drop_bit 4 (raw_mirror_of self) AND (push_bit 17 1 - 1)) n =
          bit (if 1 \<le> self_ng self \<and> self_ng self \<le> 90000 then self_ng self else 0) n"
      unfolding m using g by (auto simp: bit_and_iff bit_drop_bit_eq bit_mask_iff rb)
  qed
qed

subsection \<open>What an accepted header satisfies\<close>

lemma guards_Cons_True:
  "guards (g # gs) s = Inr (True, t) \<Longrightarrow> \<exists>u. g s = Inr (True, u) \<and> guards gs u = Inr (True, t)"
  by (auto split: sum.splits prod.splits bool.splits)

lemma guard_Some_True: "guard (Some x) chk s = Inr (True, u) \<Longrightarrow> chk x s = (True, u)"
  by (simp add: guard_def)

lemma checker_accepts:
  "check_mode m s = (True, u) \<Longrightarrow> m = -1 \<or> m = -2"
  "check_symmetry sy s = (True, u) \<Longrightarrow> sy = ''planar'' \<or> sy = ''cylindrical''"
  "check_field_type ft s = (True, u) \<Longrightarrow> ft = ''electrostatic'' \<or> ft = ''magnetic''"
  "check_ng ng s = (True, u) \<Longrightarrow> 0 \<le> ng"
  "check_nx nx s = (True, u) \<Longrightarrow> 3 \<le> nx \<and> nx \<le> 90000"
  "check_ny ny s = (True, u) \<Longrightarrow> 3 \<le> ny \<and> ny \<le> 90000"
  "check_nz nz s = (True, u) \<Longrightarrow> 1 \<le> nz \<and> nz \<le> 90000"
  by (auto simp: checker_defs fail_with_def split: if_splits)

lemma check_size_accepts:
  "check_size nx (Some ny) (Some nz) s = Inr (True, u) \<Longrightarrow> nx * ny * nz \<le> 200000000"
  by (auto simp: check_size_def fail_with_def split: prod.splits bool.splits if_splits)

lemma check_header_accepts:
  fixes P :: "'g::linordered_field pa"
  assumes "check (header_args A) P = Inr (True, P')"
  shows "self_mode A = -1 \<or> self_mode A = -2"
    and "self_symmetry A = ''planar'' \<or> self_symmetry A = ''cylindrical''"
    and "self_field_type A = ''electrostatic'' \<or> self_field_type A = ''magnetic''"
    and "0 \<le> self_ng A"
    and "3 \<le> self_nx A \<and> self_nx A \<le> 90000"
    and "3 \<le> self_ny A \<and> self_ny A \<le> 90000"
    and "1 \<le> self_nz A \<and> self_nz A \<le> 90000"
    and "self_nx A * self_ny A * self_nz A \<le> 200000000"
proof -
  from assms obtain t where g: "guards (check_guards (header_args A :: 'g check_args)) P = Inr (True, t)"
    by (auto simp: check_def split: sum.splits prod.splits bool.splits)
  have a: "arg_mode (header_args A :: 'g check_args) = Some (self_mode A)"
    "arg_symmetry (header_args A :: 'g check_args) = Some (self_symmetry A)"
    "arg_max_voltage (header_args A :: 'g check_args) = None"
    "arg_field_type (header_args A :: 'g check_args) = Some (self_field_type A)"
    "arg_ng (header_args A :: 'g check_args) = Some (self_ng A)"
    "arg_nx (header_args A :: 'g check_args) = Some (self_nx A)"
    "arg_ny (header_args A :: 'g check_args) = Some (self_ny A)"
    "arg_nz (header_args A :: 'g check_args) = Some (self_nz A)"
    by (simp_all add: header_args_def no_args_def)
  from g have "(self_mode A = -1 \<or> self_mode A = -2) \<and>
      (self_symmetry A = ''planar'' \<or> self_symmetry A = ''cylindrical'') \<and>
      (self_field_type A = ''electrostatic'' \<or> self_field_type A = ''magnetic'') \<and>
      0 \<le> self_ng A \<and>
      (3 \<le> self_nx A \<and> self_nx A \<le> 90000) \<and>
      (3 \<le> self_ny A \<and> self_ny A \<le> 90000) \<and>
      (1 \<le> self_nz A \<and> self_nz A \<le> 90000) \<and>
      self_nx A * self_ny A * self_nz A \<le> 200000000"
    unfolding check_guards_def a
    by (auto dest!: guards_Cons_True guard_Some_True checker_accepts check_size_accepts
        simp del: guards.simps)
  then show "self_mode A = -1 \<or> self_mode A = -2"
    and "self_symmetry A = ''planar'' \<or> self_symmetry A = ''cylindrical''"
    and "self_field_type A = ''electrostatic'' \<or> self_field_type A = ''magnetic''"
    and "0 \<le> self_ng A"
    and "3 \<le> self_nx A \<and> self_nx A \<le> 90000"
    and "3 \<le> self_ny A \<and> self_ny A \<le> 90000"
    and "1 \<le> self_nz A \<and> self_nz A \<le> 90000"
    and "self_nx A * self_ny A * self_nz A \<le> 200000000"
    by blast+
qed

end
